theory Spec2Isabelle
  imports Complex_Main "HOL-Library.Extended_Nat"
begin

section \<open>IR core (source/ir/instructions.js)\<close>

subsection \<open>IR types\<close>

text \<open>
  The type objects of the enumeration \<open>IRType\<close>. They are singletons compared with
  \<open>===\<close>, so a datatype with one constructor per object models them. The platform
  pointer size is 8, so the 64-bit integer types stay and \<open>IRType.pint\<close> is the
  object \<open>IRType.i64\<close> itself.
\<close>

datatype IRTypeObj =
  IRType_none | IRType_box | IRType_rptr
  | IRType_u8 | IRType_u16 | IRType_u32 | IRType_u64
  | IRType_i8 | IRType_i16 | IRType_i32 | IRType_i64
  | IRType_f64

definition PLATFORM_PTR_SIZE :: nat where
  "PLATFORM_PTR_SIZE = 8"

fun name :: "IRTypeObj \<Rightarrow> string" where
  "name IRType_none = ''none''"
| "name IRType_box = ''box''"
| "name IRType_rptr = ''rptr''"
| "name IRType_u8 = ''u8''"
| "name IRType_u16 = ''u16''"
| "name IRType_u32 = ''u32''"
| "name IRType_u64 = ''u64''"
| "name IRType_i8 = ''i8''"
| "name IRType_i16 = ''i16''"
| "name IRType_i32 = ''i32''"
| "name IRType_i64 = ''i64''"
| "name IRType_f64 = ''f64''"

fun size_bytes :: "IRTypeObj \<Rightarrow> nat" where
  "size_bytes IRType_none = 0"
| "size_bytes IRType_box = PLATFORM_PTR_SIZE"
| "size_bytes IRType_rptr = PLATFORM_PTR_SIZE"
| "size_bytes IRType_u8 = 1"
| "size_bytes IRType_u16 = 2"
| "size_bytes IRType_u32 = 4"
| "size_bytes IRType_u64 = 8"
| "size_bytes IRType_i8 = 1"
| "size_bytes IRType_i16 = 2"
| "size_bytes IRType_i32 = 4"
| "size_bytes IRType_i64 = 8"
| "size_bytes IRType_f64 = 8"

definition IRType_pint :: IRTypeObj where
  "IRType_pint = (if PLATFORM_PTR_SIZE = 4 then IRType_i32 else IRType_i64)"

definition toString :: "IRTypeObj \<Rightarrow> string" where
  "toString t = name t"

fun isPtrType :: "IRTypeObj \<Rightarrow> bool" where
  "isPtrType IRType_rptr = True"
| "isPtrType IRType_box = True"
| "isPtrType _ = False"

fun isIntType :: "IRTypeObj \<Rightarrow> bool" where
  "isIntType IRType_u8 = True"
| "isIntType IRType_u16 = True"
| "isIntType IRType_u32 = True"
| "isIntType IRType_u64 = True"
| "isIntType IRType_i8 = True"
| "isIntType IRType_i16 = True"
| "isIntType IRType_i32 = True"
| "isIntType IRType_i64 = True"
| "isIntType _ = False"

fun isFPType :: "IRTypeObj \<Rightarrow> bool" where
  "isFPType IRType_f64 = True"
| "isFPType _ = False"

definition isNumberType :: "IRTypeObj \<Rightarrow> bool" where
  "isNumberType t = (isIntType t \<or> isFPType t)"

subsection \<open>Errors\<close>

text \<open>
  Every \<open>assert\<close> that fails and every exception the JavaScript engine raises is a
  value of this type. \<open>CountError\<close> is the assertion of \<open>instrMaker.validCount\<close>
  (its message is built from the name, the length found and the bounds);
  \<open>InvalidArguments\<close> is the string \<open>InstrConstr\<close> throws when it wraps the error of
  an initialisation function with the mnemonic.
\<close>

datatype error =
  AssertionError string
  | CountError string nat nat enat
  | TypeError string
  | ReferenceError string
  | InvalidArguments "string option" error

subsection \<open>Values, instructions and the object store\<close>

text \<open>
  IR values are JavaScript objects that refer to each other (uses, dests), and a phi node
  changes its \<open>type\<close> field after other objects already refer to it. Objects
  therefore live in a store and are named by references; the class hierarchy
  \<open>IRValue\<close>, \<open>ConstValue\<close>, \<open>IRInstr\<close>, \<open>PhiInstr\<close> is a hierarchy of
  record extensions. Numbers are modelled as rationals (the finite numbers).
\<close>

type_synonym ref = nat

type_synonym BasicBlock_ref = nat

datatype js_value =
  JSNumber rat | JSString string | JSBoolean bool | JSUndefined | JSNull | JSObject nat

record IRValue =
  type :: IRTypeObj

record ConstValue = IRValue +
  "value" :: js_value

record IRInstr = IRValue +
  mnemonic :: "string option"
  outName :: string
  instrId :: nat
  uses :: "ref list"
  dests :: "ref list"
  targets :: "BasicBlock_ref list"
  sideEffects :: bool
  parentBlock :: "BasicBlock_ref option"
  typeParams :: "IRTypeObj list"
  targetNames :: "string option list option"

record PhiInstr = IRInstr +
  preds :: "BasicBlock_ref list"

datatype IRObject =
  Const ConstValue | Instr IRInstr | Phi PhiInstr

type_synonym store = "ref \<Rightarrow> IRObject"

fun typeOf :: "IRObject \<Rightarrow> IRTypeObj" where
  "typeOf (Const c) = type c"
| "typeOf (Instr i) = type i"
| "typeOf (Phi p) = type p"

text \<open>
  The fields an object created by \<open>new IRInstr()\<close> has: those the function
  \<open>IRInstr\<close> sets, and \<open>type\<close> from \<open>IRValue\<close>. A field that holds the
  JavaScript value \<open>undefined\<close> (mnemonic, typeParams before the constructor stores
  them, targetNames) is \<open>None\<close> or empty.
\<close>

definition new_IRInstr :: IRInstr where
  "new_IRInstr = \<lparr> type = IRType_box, mnemonic = Some [], outName = [], instrId = 0,
     uses = [], dests = [], targets = [], sideEffects = False, parentBlock = None,
     typeParams = [], targetNames = None \<rparr>"

subsection \<open>The instruction constructor factory\<close>

text \<open>
  An argument of an instruction constructor is a type object, an IR value, a basic block,
  or anything else (which \<open>parseArgs\<close> rejects).
\<close>

datatype arg =
  TypeArg IRTypeObj | ValueArg ref | BlockArg BasicBlock_ref | OtherArg

fun isTypeArg :: "arg \<Rightarrow> bool" where
  "isTypeArg (TypeArg _) = True"
| "isTypeArg _ = False"

fun isValueArg :: "arg \<Rightarrow> bool" where
  "isValueArg (ValueArg _) = True"
| "isValueArg _ = False"

fun isBlockArg :: "arg \<Rightarrow> bool" where
  "isBlockArg (BlockArg _) = True"
| "isBlockArg _ = False"

fun typeArgs :: "arg list \<Rightarrow> IRTypeObj list" where
  "typeArgs [] = []"
| "typeArgs (TypeArg t # xs) = t # typeArgs xs"
| "typeArgs (_ # xs) = typeArgs xs"

fun valueArgs :: "arg list \<Rightarrow> ref list" where
  "valueArgs [] = []"
| "valueArgs (ValueArg v # xs) = v # valueArgs xs"
| "valueArgs (_ # xs) = valueArgs xs"

fun blockArgs :: "arg list \<Rightarrow> BasicBlock_ref list" where
  "blockArgs [] = []"
| "blockArgs (BlockArg b # xs) = b # blockArgs xs"
| "blockArgs (_ # xs) = blockArgs xs"

text \<open>Sequencing of steps that may throw: the first error ends the computation.\<close>

definition andThen :: "error + 'a \<Rightarrow> ('a \<Rightarrow> error + 'b) \<Rightarrow> error + 'b" where
  "andThen r f = (case r of Inl e \<Rightarrow> Inl e | Inr x \<Rightarrow> f x)"

definition assert :: "bool \<Rightarrow> string \<Rightarrow> error + unit" where
  "assert cond msg = (if cond then Inr () else Inl (AssertionError msg))"

text \<open>String conversion of a mnemonic that may be \<open>undefined\<close>, as \<open>+=\<close> does it.\<close>

definition mnemonicString :: "string option \<Rightarrow> string" where
  "mnemonicString m = (case m of None \<Rightarrow> ''undefined'' | Some s \<Rightarrow> s)"

text \<open>
  \<open>parseArgs\<close>: three runs in order (type parameters, input values, branch targets), and
  the index must have reached the end of the argument array.
\<close>

definition parseArgs ::
  "string option \<Rightarrow> arg list \<Rightarrow> error + (IRTypeObj list \<times> ref list \<times> BasicBlock_ref list)" where
  "parseArgs mnem argArray =
     (let typeRun = takeWhile isTypeArg argArray;
          rest1 = dropWhile isTypeArg argArray;
          valueRun = takeWhile isValueArg rest1;
          rest2 = dropWhile isValueArg rest1;
          blockRun = takeWhile isBlockArg rest2;
          rest3 = dropWhile isBlockArg rest2
      in if rest3 = []
         then Inr (typeArgs typeRun, valueArgs valueRun, blockArgs blockRun)
         else Inl (AssertionError
                (''invalid arguments passed to '' @ mnemonicString mnem @ '' constructor'')))"

text \<open>
  \<open>setName\<close>, the closure of \<open>instrMaker\<close> that sets the mnemonic of \<open>this\<close> from the
  base mnemonic, the type parameters and the types of the input values.
\<close>

definition setName ::
  "string option \<Rightarrow> store \<Rightarrow> IRInstr \<Rightarrow> IRTypeObj list \<Rightarrow> ref list \<Rightarrow> IRInstr" where
  "setName mnem h this tps inputVals =
     (if length tps > 0
      then this\<lparr>mnemonic :=
             foldl (\<lambda>m t. Some (mnemonicString m @ ''_'' @ toString t)) mnem tps\<rparr>
      else
        (let firstType = (case inputVals of [] \<Rightarrow> None | v # _ \<Rightarrow> Some (typeOf (h v)));
             allSame = list_all (\<lambda>v. Some (typeOf (h v)) = firstType) inputVals
         in if allSame
            then (case firstType of
                    None \<Rightarrow> this\<lparr>mnemonic := mnem\<rparr>
                  | Some ft \<Rightarrow>
                      if ft \<noteq> IRType_box
                      then this\<lparr>mnemonic := Some (mnemonicString mnem @ ''_'' @ name ft)\<rparr>
                      else this\<lparr>mnemonic := mnem\<rparr>)
            else this\<lparr>mnemonic :=
                   foldl (\<lambda>m v. Some (mnemonicString m @ ''_'' @ toString (typeOf (h v))))
                     mnem inputVals\<rparr>))"

type_synonym initFunc =
  "store \<Rightarrow> IRInstr \<Rightarrow> IRTypeObj list \<Rightarrow> ref list \<Rightarrow> BasicBlock_ref list \<Rightarrow> error + IRInstr"

text \<open>
  A prototype object handed to \<open>instrMaker\<close>: the fields an instance inherits from it
  and the \<open>initFunc\<close> found on its prototype chain, if any.
\<close>

record protoObj =
  protoFields :: IRInstr
  protoInitFunc :: "initFunc option"

definition new_IRInstr_proto :: protoObj where
  "new_IRInstr_proto = \<lparr> protoFields = new_IRInstr, protoInitFunc = None \<rparr>"

text \<open>
  \<open>instrMaker\<close> returns the constructor \<open>InstrConstr\<close>; the model is the function from
  the store and the argument array to the constructed object or the error thrown.
  An \<open>initFunc\<close> given to \<open>instrMaker\<close> replaces the one of the prototype object;
  calling a missing \<open>initFunc\<close> is a TypeError, caught and wrapped like every error
  of the initialisation.
\<close>

definition instrMaker ::
  "string option \<Rightarrow> initFunc option \<Rightarrow> string option list option \<Rightarrow> protoObj option
     \<Rightarrow> store \<Rightarrow> arg list \<Rightarrow> error + IRInstr" where
  "instrMaker mnem initF branchNames proto h inputs =
     (let protoO = (case proto of None \<Rightarrow> new_IRInstr_proto | Some p \<Rightarrow> p);
          this0 = (protoFields protoO)\<lparr>targetNames := branchNames\<rparr>;
          theInit = (case initF of Some f \<Rightarrow> Some f | None \<Rightarrow> protoInitFunc protoO)
      in andThen (parseArgs mnem inputs) (\<lambda>(tps, inputVals, branchTargets).
           case (case theInit of
                   None \<Rightarrow> Inl (TypeError ''this.initFunc is not a function'')
                 | Some f \<Rightarrow> f h this0 tps inputVals branchTargets) of
             Inl e \<Rightarrow> Inl (InvalidArguments mnem e)
           | Inr this1 \<Rightarrow>
               (let this2 = (if mnemonic this1 = Some []
                             then setName mnem h this1 tps inputVals else this1);
                    this3 = this2\<lparr>typeParams := tps, uses := inputVals\<rparr>
                in Inr (if branchNames \<noteq> None
                        then this3\<lparr>targets := branchTargets\<rparr> else this3))))"

text \<open>The validation helpers of \<open>instrMaker\<close>. \<open>None\<close> is a bound left undefined.\<close>

definition validCount :: "string \<Rightarrow> 'a list \<Rightarrow> nat \<Rightarrow> enat option \<Rightarrow> error + unit" where
  "validCount nm array minExpected maxExpected =
     (let maxE = (case maxExpected of None \<Rightarrow> enat minExpected | Some m \<Rightarrow> m)
      in if length array \<ge> minExpected \<and> enat (length array) \<le> maxE
         then Inr ()
         else Inl (CountError nm (length array) minExpected maxE))"

definition validNumParams :: "'a list \<Rightarrow> nat \<Rightarrow> enat option \<Rightarrow> error + unit" where
  "validNumParams tps minExpected maxExpected =
     validCount ''type parameter'' tps minExpected maxExpected"

definition validNumInputs :: "'a list \<Rightarrow> nat \<Rightarrow> enat option \<Rightarrow> error + unit" where
  "validNumInputs inputVals minExpected maxExpected =
     validCount ''input value'' inputVals minExpected maxExpected"

definition validNumBranches :: "'a list \<Rightarrow> nat \<Rightarrow> enat option \<Rightarrow> error + unit" where
  "validNumBranches branchTargets minExpected maxExpected =
     validCount ''branch target'' branchTargets minExpected maxExpected"

definition allValsBoxed :: "store \<Rightarrow> ref list \<Rightarrow> error + unit" where
  "allValsBoxed h inputVals =
     assert (list_all (\<lambda>val. typeOf (h val) = IRType_box) inputVals)
       ''all input values must be boxed''"

definition validType :: "store \<Rightarrow> ref \<Rightarrow> IRTypeObj \<Rightarrow> error + unit" where
  "validType h v expectedType =
     assert (typeOf (h v) = expectedType)
       (''got '' @ toString (typeOf (h v)) @ '' value, expected '' @ toString expectedType)"

text \<open>Truthiness of a JavaScript value, for the arguments tested with \<open>?:\<close>.\<close>

fun truthy :: "js_value \<Rightarrow> bool" where
  "truthy (JSNumber r) = (r \<noteq> 0)"
| "truthy (JSString s) = (s \<noteq> [])"
| "truthy (JSBoolean b) = b"
| "truthy JSUndefined = False"
| "truthy JSNull = False"
| "truthy (JSObject _) = True"

text \<open>
  \<open>untypedInstrMaker\<close> and its \<open>initFunc\<close>. With \<open>branchNames\<close> undefined and a
  branch target given, the second disjunct of the assertion reads the length of
  \<open>undefined\<close>, which is a TypeError. Its call of \<open>instrMaker\<close> passes the arguments
  in the order of the source: mnemonic, initFunc, branchNames, protoObj.
\<close>

definition untypedInstrMaker_initFunc ::
  "nat \<Rightarrow> string option list option \<Rightarrow> js_value \<Rightarrow> js_value \<Rightarrow> initFunc" where
  "untypedInstrMaker_initFunc numInputs branchNames voidOutput sideEff h this tps inputVals
       branchTargets =
     andThen (validNumInputs inputVals numInputs None) (\<lambda>_.
     andThen (allValsBoxed h inputVals) (\<lambda>_.
     andThen
       (if length branchTargets = 0 \<and> branchNames = None then Inr ()
        else (case branchNames of
                None \<Rightarrow> Inl (TypeError ''cannot read property length of undefined'')
              | Some names \<Rightarrow>
                  assert (length branchTargets = length names)
                    ''invalid number of branch targets specified''))
       (\<lambda>_. Inr (this\<lparr>type := (if truthy voidOutput then IRType_none else IRType_box),
                        sideEffects := (sideEff \<noteq> JSUndefined)\<rparr>))))"

definition untypedInstrMaker ::
  "string \<Rightarrow> nat \<Rightarrow> string option list option \<Rightarrow> js_value \<Rightarrow> js_value \<Rightarrow> protoObj option
     \<Rightarrow> store \<Rightarrow> arg list \<Rightarrow> error + IRInstr" where
  "untypedInstrMaker mnem numInputs branchNames voidOutput sideEff proto =
     instrMaker (Some mnem)
       (Some (untypedInstrMaker_initFunc numInputs branchNames voidOutput sideEff))
       branchNames proto"

subsection \<open>Instruction kinds\<close>

text \<open>
  \<open>ArithInstr\<close>: the base class of the arithmetic instructions, with the default
  initialisation function on its prototype. \<open>new ArithInstr()\<close> inherits the fields of
  the \<open>IRInstr\<close> object that is the prototype of \<open>ArithInstr.prototype\<close>.
\<close>

definition ArithInstr_initFunc :: initFunc where
  "ArithInstr_initFunc h this tps inputVals branchTargets =
     andThen (validNumInputs inputVals 2 None) (\<lambda>_.
     andThen
       (assert
          ((typeOf (h (inputVals ! 0)) = IRType_box \<or> isNumberType (typeOf (h (inputVals ! 0))))
           \<and> typeOf (h (inputVals ! 1)) = typeOf (h (inputVals ! 0)))
          ''invalid input types'')
       (\<lambda>_. Inr (this\<lparr>type := typeOf (h (inputVals ! 0))\<rparr>)))"

definition new_ArithInstr :: protoObj where
  "new_ArithInstr = \<lparr> protoFields = new_IRInstr, protoInitFunc = Some ArithInstr_initFunc \<rparr>"

definition AddInstr_initFunc :: initFunc where
  "AddInstr_initFunc h this tps inputVals branchTargets =
     andThen (validNumInputs inputVals 2 None) (\<lambda>_.
     andThen
       (assert
          ((typeOf (h (inputVals ! 0)) = IRType_rptr \<and> typeOf (h (inputVals ! 1)) = IRType_pint)
           \<or>
           ((typeOf (h (inputVals ! 0)) = IRType_box \<or> isNumberType (typeOf (h (inputVals ! 0))))
            \<and> typeOf (h (inputVals ! 1)) = typeOf (h (inputVals ! 0))))
          ''invalid input types'')
       (\<lambda>_. Inr (this\<lparr>type := typeOf (h (inputVals ! 0))\<rparr>)))"

definition AddInstr :: "store \<Rightarrow> arg list \<Rightarrow> error + IRInstr" where
  "AddInstr = instrMaker (Some ''add'') (Some AddInstr_initFunc) None (Some new_ArithInstr)"

definition SubInstr_initFunc :: initFunc where
  "SubInstr_initFunc h this tps inputVals branchTargets =
     andThen (validNumInputs inputVals 2 None) (\<lambda>_.
     andThen
       (assert
          ((typeOf (h (inputVals ! 0)) = IRType_rptr \<and> typeOf (h (inputVals ! 1)) = IRType_pint)
           \<or>
           (typeOf (h (inputVals ! 0)) = IRType_rptr \<and> typeOf (h (inputVals ! 1)) = IRType_rptr)
           \<or>
           ((typeOf (h (inputVals ! 0)) = IRType_box \<or> isNumberType (typeOf (h (inputVals ! 0))))
            \<and> typeOf (h (inputVals ! 1)) = typeOf (h (inputVals ! 0))))
          ''invalid input types'')
       (\<lambda>_. if typeOf (h (inputVals ! 0)) = IRType_rptr \<and> typeOf (h (inputVals ! 1)) = IRType_rptr
            then Inr (this\<lparr>type := IRType_pint\<rparr>)
            else Inr (this\<lparr>type := typeOf (h (inputVals ! 0))\<rparr>)))"

definition SubInstr :: "store \<Rightarrow> arg list \<Rightarrow> error + IRInstr" where
  "SubInstr = instrMaker (Some ''sub'') (Some SubInstr_initFunc) None (Some new_ArithInstr)"

definition MulInstr :: "store \<Rightarrow> arg list \<Rightarrow> error + IRInstr" where
  "MulInstr = instrMaker (Some ''mul'') None None (Some new_ArithInstr)"

definition DivInstr :: "store \<Rightarrow> arg list \<Rightarrow> error + IRInstr" where
  "DivInstr = instrMaker (Some ''div'') None None (Some new_ArithInstr)"

definition ModInstr :: "store \<Rightarrow> arg list \<Rightarrow> error + IRInstr" where
  "ModInstr = instrMaker (Some ''mod'') None None (Some new_ArithInstr)"

text \<open>
  \<open>CompInstr\<close>, the base class of the comparison instructions. The strict comparisons
  are made by \<open>untypedInstrMaker\<close>, whose parameters are, in order: mnemonic, numInputs,
  branchNames, voidOutput, sideEffects, protoObj. The source passes five arguments,
  so the object \<open>new CompInstr()\<close> is the value of \<open>sideEffects\<close> and \<open>protoObj\<close> is
  undefined. The object is a fresh one; \<open>JSObject 0\<close> stands for it.
\<close>

definition CompInstr_initFunc :: initFunc where
  "CompInstr_initFunc h this tps inputVals branchTargets =
     andThen (validNumInputs inputVals 2 None) (\<lambda>_.
     andThen
       (assert
          ((typeOf (h (inputVals ! 0)) = IRType_box \<or> isNumberType (typeOf (h (inputVals ! 0))))
           \<and> typeOf (h (inputVals ! 1)) = typeOf (h (inputVals ! 0)))
          ''invalid input types'')
       (\<lambda>_. if typeOf (h (inputVals ! 0)) = IRType_box
            then Inr (this\<lparr>type := IRType_box\<rparr>)
            else Inr (this\<lparr>type := IRType_i8\<rparr>)))"

definition new_CompInstr :: protoObj where
  "new_CompInstr = \<lparr> protoFields = new_IRInstr, protoInitFunc = Some CompInstr_initFunc \<rparr>"

definition EqInstr :: "store \<Rightarrow> arg list \<Rightarrow> error + IRInstr" where
  "EqInstr = instrMaker (Some ''eq'') None None (Some new_CompInstr)"

definition new_CompInstr_object :: js_value where
  "new_CompInstr_object = JSObject 0"

definition SeqInstr :: "store \<Rightarrow> arg list \<Rightarrow> error + IRInstr" where
  "SeqInstr =
     untypedInstrMaker ''seq'' 2 None (JSBoolean False) new_CompInstr_object None"

definition NseqInstr :: "store \<Rightarrow> arg list \<Rightarrow> error + IRInstr" where
  "NseqInstr =
     untypedInstrMaker ''nseq'' 2 None (JSBoolean False) new_CompInstr_object None"

text \<open>
  Two more untyped instructions: \<open>del_prop_val\<close>, which passes both \<open>voidOutput\<close> and
  \<open>sideEffects\<close>, and \<open>jump\<close>, which passes the branch names \<open>[undefined]\<close> and
  \<open>voidOutput\<close> only.
\<close>

definition DelPropValInstr :: "store \<Rightarrow> arg list \<Rightarrow> error + IRInstr" where
  "DelPropValInstr =
     untypedInstrMaker ''del_prop_val'' 2 None (JSBoolean True) (JSBoolean True) None"

definition JumpInstr :: "store \<Rightarrow> arg list \<Rightarrow> error + IRInstr" where
  "JumpInstr = untypedInstrMaker ''jump'' 0 (Some [None]) (JSBoolean True) JSUndefined None"

text \<open>
  The conversions between integers and floating point. Both call \<open>validNumParams\<close> on
  the input values. A type object has the fields \<open>name\<close> and \<open>size\<close> only, so reading
  its property \<open>type\<close> gives \<open>undefined\<close>; reading element 0 of an empty array gives
  \<open>undefined\<close>, and a property of \<open>undefined\<close> is a TypeError.
\<close>

definition IRTypeObj_type :: "IRTypeObj \<Rightarrow> IRTypeObj option" where
  "IRTypeObj_type t = None"

definition element0 :: "'a list \<Rightarrow> 'a option" where
  "element0 xs = (case xs of [] \<Rightarrow> None | x # _ \<Rightarrow> Some x)"

definition IToFPInstr_initFunc :: initFunc where
  "IToFPInstr_initFunc h this tps inputVals branchTargets =
     andThen (validNumParams inputVals 1 None) (\<lambda>_.
     andThen (validNumInputs inputVals 1 None) (\<lambda>_.
     andThen
       (assert (typeOf (h (inputVals ! 0)) = IRType_pint \<and> element0 tps = Some IRType_f64)
          ''invalid type parameters'')
       (\<lambda>_. Inr (this\<lparr>type := tps ! 0\<rparr>))))"

definition IToFPInstr :: "store \<Rightarrow> arg list \<Rightarrow> error + IRInstr" where
  "IToFPInstr = instrMaker (Some ''itof'') (Some IToFPInstr_initFunc) None None"

definition FPToIInstr_initFunc :: initFunc where
  "FPToIInstr_initFunc h this tps inputVals branchTargets =
     andThen (validNumParams inputVals 1 None) (\<lambda>_.
     andThen (validNumInputs inputVals 1 None) (\<lambda>_.
     case element0 tps of
       None \<Rightarrow> Inl (TypeError ''cannot read property type of undefined'')
     | Some tp \<Rightarrow>
         andThen
           (assert (IRTypeObj_type tp = Some IRType_f64 \<and> tp = IRType_pint)
              ''invalid type parameters'')
           (\<lambda>_. Inr (this\<lparr>type := tp\<rparr>))))"

definition FPToIInstr :: "store \<Rightarrow> arg list \<Rightarrow> error + IRInstr" where
  "FPToIInstr = instrMaker (Some ''ftoi'') (Some FPToIInstr_initFunc) None None"

subsection \<open>Constant uniquing\<close>

text \<open>
  The constructor \<open>ConstValue\<close>: three assertions, then the two fields.
  \<open>typeof value == 'number'\<close> holds of the numbers only, and
  \<open>Math.floor(value) == value\<close> is evaluated for a number only (the conjunction
  stops at a value that is none).
\<close>

fun isNumberValue :: "js_value \<Rightarrow> bool" where
  "isNumberValue (JSNumber _) = True"
| "isNumberValue _ = False"

fun isStringValue :: "js_value \<Rightarrow> bool" where
  "isStringValue (JSString _) = True"
| "isStringValue _ = False"

fun isWholeNumber :: "js_value \<Rightarrow> bool" where
  "isWholeNumber (JSNumber r) = (of_int \<lfloor>r\<rfloor> = r)"
| "isWholeNumber _ = False"

definition new_ConstValue :: "js_value \<Rightarrow> IRTypeObj \<Rightarrow> error + ConstValue" where
  "new_ConstValue v t =
     andThen (assert (\<not> isIntType t \<or> (isNumberValue v \<and> isWholeNumber v))
                ''integer constants require integer values'') (\<lambda>_.
     andThen (assert (\<not> isFPType t \<or> isNumberValue v)
                ''floating-point constants require number values'') (\<lambda>_.
     andThen (assert (t = IRType_box \<or> \<not> isStringValue v)
                ''string-valued constants must have box type'') (\<lambda>_.
     Inr \<lparr> type = t, value = v \<rparr>)))"

text \<open>
  Modelled from the spec: the class \<open>HashMap\<close> is utility code that is not among the
  sources; the spec calls the table of constants a two-level map keyed first by literal
  value then by type. It is a finite map here, with the three operations
  \<open>getConst\<close> calls. Reading a key that is absent is an error.
\<close>

type_synonym ('k, 'v) HashMap = "'k \<rightharpoonup> 'v"

definition hasItem :: "('k, 'v) HashMap \<Rightarrow> 'k \<Rightarrow> bool" where
  "hasItem m k = (m k \<noteq> None)"

definition addItem :: "('k, 'v) HashMap \<Rightarrow> 'k \<Rightarrow> 'v \<Rightarrow> ('k, 'v) HashMap" where
  "addItem m k v = m(k \<mapsto> v)"

definition getItem :: "('k, 'v) HashMap \<Rightarrow> 'k \<Rightarrow> error + 'v" where
  "getItem m k =
     (case m k of None \<Rightarrow> Inl (AssertionError ''cannot get item, key not found'')
      | Some v \<Rightarrow> Inr v)"

text \<open>
  The state \<open>getConst\<close> works on: the map \<open>ConstValue.constMap\<close> and the constant
  objects created so far, in the order of their creation. A constant object is named by
  its position in that list, so two references are equal exactly when they name the same
  object. A type map is an object of its own that \<open>constMap\<close> refers to; adding to it
  is seen through \<open>constMap\<close>, which the model writes as an update of the outer map.
\<close>

record ConstState =
  constMap :: "(js_value, (IRTypeObj, ref) HashMap) HashMap"
  constObjects :: "ConstValue list"

definition initialConstState :: ConstState where
  "initialConstState = \<lparr> constMap = Map.empty, constObjects = [] \<rparr>"

text \<open>The default of the type argument: box when it is left undefined (\<open>None\<close>).\<close>

definition typeOrBox :: "IRTypeObj option \<Rightarrow> IRTypeObj" where
  "typeOrBox ty = (case ty of None \<Rightarrow> IRType_box | Some t \<Rightarrow> t)"

text \<open>
  \<open>ConstValue.getConst\<close>. The type argument is \<open>None\<close> when it is left undefined.
  The result is the constant (or the error of the constructor) and the state after the
  call; when the constructor fails, the empty type map added for a new value stays.
\<close>

definition getConst ::
  "js_value \<Rightarrow> IRTypeObj option \<Rightarrow> ConstState \<Rightarrow> (error + ref) \<times> ConstState" where
  "getConst v ty s =
     (let t = typeOrBox ty;
          s1 = (if \<not> hasItem (constMap s) v
                then s\<lparr>constMap := addItem (constMap s) v Map.empty\<rparr> else s)
      in case getItem (constMap s1) v of
           Inl e \<Rightarrow> (Inl e, s1)
         | Inr typeMap \<Rightarrow>
             if \<not> hasItem typeMap t
             then (case new_ConstValue v t of
                     Inl e \<Rightarrow> (Inl e, s1)
                   | Inr c \<Rightarrow>
                       (Inr (length (constObjects s1)),
                        s1\<lparr>constObjects := constObjects s1 @ [c],
                           constMap := addItem (constMap s1) v
                                         (addItem typeMap t (length (constObjects s1)))\<rparr>))
             else (getItem typeMap t, s1))"

text \<open>A sequence of calls of \<open>getConst\<close>, results dropped: the states a program reaches.\<close>

fun getConstCalls :: "(js_value \<times> IRTypeObj option) list \<Rightarrow> ConstState \<Rightarrow> ConstState" where
  "getConstCalls [] s = s"
| "getConstCalls ((v, ty) # calls) s = getConstCalls calls (snd (getConst v ty s))"

subsection \<open>Phi nodes\<close>









section \<open>x86 backend interface\<close>

subsection \<open>Operands, assembler calls and the allocation plan\<close>

text \<open>
  Modelled from the spec: the classes \<open>x86.Operand\<close> (with \<open>x86.MemLoc\<close> and
  \<open>x86.Immediate\<close> among its subclasses), \<open>x86.Label\<close> and \<open>x86.Assembler\<close> are
  not among the sources. An operand is a register, a memory location (size in bits, base
  and offset, as \<open>asm.mem\<close> makes it) or an immediate. The assembler is the list of
  the calls made on it, in order; an argument of a call is an operand, a number, or
  \<open>undefined\<close> (an element read past the end of an operand array).
\<close>

datatype x86_Operand =
  Reg string | MemLoc nat x86_Operand int | Immediate int

fun isMemLoc :: "x86_Operand \<Rightarrow> bool" where
  "isMemLoc (MemLoc _ _ _) = True"
| "isMemLoc _ = False"

fun isImmediate :: "x86_Operand \<Rightarrow> bool" where
  "isImmediate (Immediate _) = True"
| "isImmediate _ = False"

datatype x86_Label = Label string

datatype asm_arg = Opnd x86_Operand | Num int | UndefinedArg

datatype asm_call =
  asm_addInstr x86_Label
  | asm_mov asm_arg asm_arg
  | asm_add asm_arg asm_arg
  | asm_sub asm_arg asm_arg
  | asm_mul asm_arg
  | asm_imul asm_arg asm_arg
  | asm_imul3 asm_arg asm_arg asm_arg
  | asm_div asm_arg
  | asm_idiv asm_arg
  | asm_cqo
  | asm_cdq
  | asm_sal asm_arg asm_arg
  | asm_cmp asm_arg asm_arg
  | asm_jcc string x86_Label
  | asm_jmp "x86_Label option"
  | asm_ret
  | asm_nop

type_synonym Assembler = "asm_call list"

definition opndArg :: "x86_Operand list \<Rightarrow> nat \<Rightarrow> asm_arg" where
  "opndArg opnds i = (if i < length opnds then Opnd (opnds ! i) else UndefinedArg)"

definition destArg :: "x86_Operand option \<Rightarrow> asm_arg" where
  "destArg d = (case d of None \<Rightarrow> UndefinedArg | Some x \<Rightarrow> Opnd x)"

text \<open>
  An abstract move of the allocation plan: its source is an operand, a constant or some
  other value; its destination must be an operand.
\<close>

datatype move_value = X86Operand x86_Operand | ConstSrc ConstValue | OtherValue

record Move =
  src :: move_value
  dst :: move_value

text \<open>
  The backend descriptor, the calling convention, the stack frame map and the
  parameters. Modelled from the spec: \<open>x86.getImmSize\<close> and the method
  \<open>getImmValue\<close> of a constant are not among the sources; they are fields of the
  parameters they take. \<open>locOffset\<close> is \<open>getLocOffset\<close> after \<open>getStackLoc\<close>.
\<close>

record Backend =
  x86_64 :: bool
  regSizeBits :: nat
  spReg :: x86_Operand

record CallConv =
  calleeSave :: "x86_Operand list"
  retReg :: x86_Operand

record StackMap =
  spillSize :: int
  locOffset :: "x86_Operand \<Rightarrow> int"

record Params =
  backend :: Backend
  getImmSize :: "ConstValue \<Rightarrow> nat option"
  getImmValue :: "ConstValue \<Rightarrow> int"

record InstrAlloc =
  preMoves :: "Move list"
  opnds :: "x86_Operand list"
  dest :: "x86_Operand option"
  scratchRegs :: "x86_Operand list"

type_synonym CfgEdge = "BasicBlock_ref \<times> BasicBlock_ref"

record AllocInfo =
  stackMap :: StackMap
  mergeMoves :: "(CfgEdge, Move list) HashMap"
  instrMap :: "nat \<rightharpoonup> InstrAlloc"

text \<open>
  An instruction as the emitter meets it in a block: the fields of \<open>IRInstr\<close>, the
  constructor it was made by (which decides the policy object \<open>instr.x86\<close>), and the
  comparison token of an \<open>if\<close>.
\<close>

datatype InstrClass =
  ArgValInstr_class | GetNumArgsInstr_class | GetArgTableInstr_class | PhiInstr_class
  | GetCtxInstr_class | SetCtxInstr_class | AddInstr_class | SubInstr_class
  | MulInstr_class | ModInstr_class | LsftInstr_class | CallFuncInstr_class
  | JumpInstr_class | IfInstr_class | RetInstr_class | LoadInstr_class
  | OtherInstr_class

record BlockInstr = IRInstr +
  instrClass :: InstrClass
  testOp :: string

text \<open>
  Modelled from the spec: the class \<open>BasicBlock\<close> is not among the sources. A block
  owns an id and a name and holds its predecessors, its successors and its
  instructions. Blocks refer to each other, so they are named by references and a
  control-flow graph gives the block at each reference.
\<close>

record BasicBlock =
  blockId :: nat
  blockName :: string
  preds :: "BasicBlock_ref list"
  succs :: "BasicBlock_ref list"
  instrs :: "BlockInstr list"

type_synonym CFG = "BasicBlock_ref \<Rightarrow> BasicBlock"

definition getBlockName :: "BasicBlock \<Rightarrow> string" where
  "getBlockName b = blockName b"

record GenInfo =
  callConv :: CallConv
  edgeLabels :: "(CfgEdge, x86_Label) HashMap"
  genStackMap :: StackMap
  genBackend :: Backend
  genParams :: Params

subsection \<open>Moves and edge transitions\<close>

text \<open>\<open>x86.insertMove\<close>.\<close>

definition insertMove :: "Assembler \<Rightarrow> Move \<Rightarrow> Params \<Rightarrow> error + Assembler" where
  "insertMove asm move params =
     (case dst move of
        X86Operand d \<Rightarrow>
          (case src move of
             X86Operand s \<Rightarrow>
               andThen (assert (\<not> isMemLoc s \<or> \<not> isMemLoc d) ''memory to memory move'')
                 (\<lambda>_. Inr (asm @ [asm_mov (Opnd d) (Opnd s)]))
           | ConstSrc c \<Rightarrow>
               (case getImmSize params c of
                  None \<Rightarrow> Inr (asm @ [asm_nop])
                | Some immSize \<Rightarrow>
                    if immSize \<le> regSizeBits (backend params)
                    then Inr (asm @ [asm_mov (Opnd d) (Num (getImmValue params c))])
                    else Inr (asm @ [asm_nop]))
           | OtherValue \<Rightarrow> Inr (asm @ [asm_nop]))
      | _ \<Rightarrow> Inl (AssertionError ''invalid move dst''))"

fun insertMoves :: "Assembler \<Rightarrow> Move list \<Rightarrow> Params \<Rightarrow> error + Assembler" where
  "insertMoves asm [] params = Inr asm"
| "insertMoves asm (m # ms) params =
     andThen (insertMove asm m params) (\<lambda>asm'. insertMoves asm' ms params)"

text \<open>
  \<open>x86.insertEdgeTrans\<close>. \<open>blockLabels\<close> is an array indexed by block id; reading an
  index that was never written gives \<open>undefined\<close>.
\<close>

definition insertEdgeTrans ::
  "CFG \<Rightarrow> Assembler \<Rightarrow> BasicBlock_ref \<Rightarrow> BasicBlock_ref \<Rightarrow> (CfgEdge, Move list) HashMap
     \<Rightarrow> (nat \<rightharpoonup> x86_Label) \<Rightarrow> (CfgEdge, x86_Label) HashMap \<Rightarrow> Params \<Rightarrow> error + Assembler" where
  "insertEdgeTrans cfg asm pred succ mergeMvs blockLabels edgeLbls params =
     andThen (getItem edgeLbls (pred, succ)) (\<lambda>transLabel.
     andThen (getItem mergeMvs (pred, succ)) (\<lambda>moves.
     andThen (insertMoves (asm @ [asm_addInstr transLabel]) moves params) (\<lambda>asm'.
     Inr (asm' @ [asm_jmp (blockLabels (blockId (cfg succ)))]))))"

subsection \<open>Policy objects and code generation\<close>

text \<open>
  Modelled from the spec: \<open>isUnsigned\<close> and \<open>isSigned\<close> are methods of a type
  object that the code generators call and that are not among the sources; the spec
  names the unsigned and the signed integers of widths 8, 16, 32 and 64.
\<close>

fun isUnsigned :: "IRTypeObj \<Rightarrow> bool" where
  "isUnsigned IRType_u8 = True"
| "isUnsigned IRType_u16 = True"
| "isUnsigned IRType_u32 = True"
| "isUnsigned IRType_u64 = True"
| "isUnsigned _ = False"

fun isSigned :: "IRTypeObj \<Rightarrow> bool" where
  "isSigned IRType_i8 = True"
| "isSigned IRType_i16 = True"
| "isSigned IRType_i32 = True"
| "isSigned IRType_i64 = True"
| "isSigned _ = False"

definition x86_regs_rax :: x86_Operand where "x86_regs_rax = Reg ''rax''"
definition x86_regs_eax :: x86_Operand where "x86_regs_eax = Reg ''eax''"
definition x86_regs_rdx :: x86_Operand where "x86_regs_rdx = Reg ''rdx''"
definition x86_regs_edx :: x86_Operand where "x86_regs_edx = Reg ''edx''"
definition x86_regs_cl :: x86_Operand where "x86_regs_cl = Reg ''cl''"

text \<open>Reading an edge label for a block and a target that may be undefined.\<close>

definition getEdgeLabel ::
  "(CfgEdge, x86_Label) HashMap \<Rightarrow> BasicBlock_ref option \<Rightarrow> BasicBlock_ref option
     \<Rightarrow> error + x86_Label" where
  "getEdgeLabel edgeLbls pred succ =
     (case (pred, succ) of
        (Some p, Some s) \<Rightarrow> getItem edgeLbls (p, s)
      | _ \<Rightarrow> Inl (AssertionError ''cannot get item, key not found''))"

definition AddInstr_x86_genCode ::
  "BlockInstr \<Rightarrow> x86_Operand list \<Rightarrow> x86_Operand option \<Rightarrow> Assembler \<Rightarrow> GenInfo
     \<Rightarrow> error + Assembler" where
  "AddInstr_x86_genCode instr ops d asm genInfo =
     Inr (asm @ [asm_add (opndArg ops 0) (opndArg ops 1)])"

definition SubInstr_x86_genCode ::
  "BlockInstr \<Rightarrow> x86_Operand list \<Rightarrow> x86_Operand option \<Rightarrow> Assembler \<Rightarrow> GenInfo
     \<Rightarrow> error + Assembler" where
  "SubInstr_x86_genCode instr ops d asm genInfo =
     Inr (asm @ [asm_sub (opndArg ops 0) (opndArg ops 1)])"

text \<open>\<open>MulInstr\<close>: the signedness is read from the type of the instruction.\<close>

definition MulInstr_x86_genCode ::
  "BlockInstr \<Rightarrow> x86_Operand list \<Rightarrow> x86_Operand option \<Rightarrow> Assembler \<Rightarrow> GenInfo
     \<Rightarrow> error + Assembler" where
  "MulInstr_x86_genCode instr ops d asm genInfo =
     (if isUnsigned (type instr)
      then andThen
             (assert (opndArg ops 0 = Opnd x86_regs_rax \<or> opndArg ops 0 = Opnd x86_regs_eax)
                ''invalid opnd 0'')
             (\<lambda>_. Inr (asm @ [asm_mul (opndArg ops 1)]))
      else if (case opndArg ops 0 of Opnd x \<Rightarrow> isImmediate x | _ \<Rightarrow> False)
      then Inr (asm @ [asm_imul3 (destArg d) (opndArg ops 1) (opndArg ops 0)])
      else if (case opndArg ops 1 of Opnd x \<Rightarrow> isImmediate x | _ \<Rightarrow> False)
      then Inr (asm @ [asm_imul3 (destArg d) (opndArg ops 0) (opndArg ops 1)])
      else Inr (asm @ [asm_imul (opndArg ops 0) (opndArg ops 1)]))"

text \<open>
  \<open>ModInstr\<close>: the hooks of its policy object and its code generator. The generator
  tests \<open>this.type.isUnsigned()\<close>. The driver calls it as \<open>instr.x86.genCode(...)\<close>,
  so \<open>this\<close> is the policy object \<open>ModInstr.prototype.x86\<close>, made by
  \<open>new x86.InstrCfg()\<close>, and not the instruction. The class \<open>x86.InstrCfg\<close> is not
  among the sources, so what the property \<open>type\<close> of a policy object holds is the
  parameter \<open>thisType\<close>: \<open>None\<close> when it has no such property (then the call of
  \<open>isUnsigned\<close> on \<open>undefined\<close> is a TypeError), or a type object.
\<close>

definition ModInstr_x86_opndMustBeReg :: "BlockInstr \<Rightarrow> nat \<Rightarrow> bool" where
  "ModInstr_x86_opndMustBeReg instr idx = (idx = 0)"

definition ModInstr_x86_opndRegSet :: "BlockInstr \<Rightarrow> nat \<Rightarrow> x86_Operand list option" where
  "ModInstr_x86_opndRegSet instr idx =
     (if idx = 0 then Some [x86_regs_rax, x86_regs_eax] else None)"

definition ModInstr_x86_destIsOpnd0 :: "BlockInstr \<Rightarrow> bool" where
  "ModInstr_x86_destIsOpnd0 instr = False"

definition ModInstr_x86_destMustBeReg :: "BlockInstr \<Rightarrow> bool" where
  "ModInstr_x86_destMustBeReg instr = True"

definition ModInstr_x86_destRegSet :: "BlockInstr \<Rightarrow> x86_Operand list" where
  "ModInstr_x86_destRegSet instr = [x86_regs_rdx, x86_regs_edx]"

definition ModInstr_x86_genCode ::
  "IRTypeObj option \<Rightarrow> BlockInstr \<Rightarrow> x86_Operand list \<Rightarrow> x86_Operand option \<Rightarrow> Assembler
     \<Rightarrow> GenInfo \<Rightarrow> error + Assembler" where
  "ModInstr_x86_genCode thisType instr ops d asm genInfo =
     (let xDX = (if x86_64 (genBackend genInfo) then x86_regs_rdx else x86_regs_edx)
      in case thisType of
           None \<Rightarrow> Inl (TypeError ''cannot call method isUnsigned of undefined'')
         | Some t \<Rightarrow>
             if isUnsigned t
             then Inr (asm @ [asm_mov (Opnd xDX) (Num 0), asm_div (opndArg ops 1)])
             else if x86_64 (genBackend genInfo)
             then Inr (asm @ [asm_cqo, asm_idiv (opndArg ops 1)])
             else Inr (asm @ [asm_cdq, asm_idiv (opndArg ops 1)]))"

definition LsftInstr_x86_genCode ::
  "BlockInstr \<Rightarrow> x86_Operand list \<Rightarrow> x86_Operand option \<Rightarrow> Assembler \<Rightarrow> GenInfo
     \<Rightarrow> error + Assembler" where
  "LsftInstr_x86_genCode instr ops d asm genInfo =
     (if (case opndArg ops 1 of Opnd x \<Rightarrow> isImmediate x | _ \<Rightarrow> False)
      then Inr (asm @ [asm_sal (destArg d) (opndArg ops 1)])
      else Inr (asm @ [asm_mov (Opnd x86_regs_cl) (opndArg ops 1),
                       asm_sal (destArg d) (Opnd x86_regs_cl)]))"

definition JumpInstr_x86_genCode ::
  "BlockInstr \<Rightarrow> x86_Operand list \<Rightarrow> x86_Operand option \<Rightarrow> Assembler \<Rightarrow> GenInfo
     \<Rightarrow> error + Assembler" where
  "JumpInstr_x86_genCode instr ops d asm genInfo =
     andThen (getEdgeLabel (edgeLabels genInfo) (parentBlock instr) (element0 (targets instr)))
       (\<lambda>label. Inr (asm @ [asm_jmp (Some label)]))"

text \<open>
  \<open>IfInstr\<close>: \<open>genCmp\<close> swaps the two labels when operand 0 is an immediate and
  \<open>invSens\<close> is true, which only the token LT passes. The signedness is the one of the
  type that the first use has now.
\<close>

definition genCmp ::
  "store \<Rightarrow> BlockInstr \<Rightarrow> x86_Operand list \<Rightarrow> Assembler \<Rightarrow> x86_Label \<Rightarrow> x86_Label
     \<Rightarrow> string \<Rightarrow> string \<Rightarrow> bool \<Rightarrow> error + Assembler" where
  "genCmp h instr ops asm trueLabel falseLabel jmpTrueSgn jmpTrue invSens =
     (let imm0 = (case opndArg ops 0 of Opnd x \<Rightarrow> isImmediate x | _ \<Rightarrow> False);
          asm1 = (if imm0 then asm @ [asm_cmp (opndArg ops 1) (opndArg ops 0)]
                  else asm @ [asm_cmp (opndArg ops 0) (opndArg ops 1)]);
          tl = (if imm0 \<and> invSens then falseLabel else trueLabel);
          fl = (if imm0 \<and> invSens then trueLabel else falseLabel)
      in case element0 (uses instr) of
           None \<Rightarrow> Inl (TypeError ''cannot read property type of undefined'')
         | Some u \<Rightarrow>
             if isSigned (typeOf (h u)) \<or> typeOf (h u) = IRType_box
             then Inr (asm1 @ [asm_jcc jmpTrueSgn tl, asm_jmp (Some fl)])
             else Inr (asm1 @ [asm_jcc jmpTrue tl, asm_jmp (Some fl)]))"

definition IfInstr_x86_genCode ::
  "store \<Rightarrow> BlockInstr \<Rightarrow> x86_Operand list \<Rightarrow> x86_Operand option \<Rightarrow> Assembler \<Rightarrow> GenInfo
     \<Rightarrow> error + Assembler" where
  "IfInstr_x86_genCode h instr ops d asm genInfo =
     andThen (getEdgeLabel (edgeLabels genInfo) (parentBlock instr) (element0 (targets instr)))
       (\<lambda>trueLabel.
     andThen (getEdgeLabel (edgeLabels genInfo) (parentBlock instr)
                (element0 (drop 1 (targets instr))))
       (\<lambda>falseLabel.
     if testOp instr = ''LT''
     then genCmp h instr ops asm trueLabel falseLabel ''jl'' ''jb'' True
     else if testOp instr = ''EQ''
     then genCmp h instr ops asm trueLabel falseLabel ''je'' ''je'' False
     else if testOp instr = ''NE''
     then genCmp h instr ops asm trueLabel falseLabel ''jne'' ''jne'' False
     else Inl (AssertionError
                 (''unsupported comparison operation in if test: '' @ testOp instr))))"

definition RetInstr_x86_genCode ::
  "BlockInstr \<Rightarrow> x86_Operand list \<Rightarrow> x86_Operand option \<Rightarrow> Assembler \<Rightarrow> GenInfo
     \<Rightarrow> error + Assembler" where
  "RetInstr_x86_genCode instr ops d asm genInfo =
     (let asm1 = asm @ map (\<lambda>reg. asm_mov (Opnd reg)
                               (Opnd (MemLoc (regSizeBits (genBackend genInfo))
                                        (spReg (genBackend genInfo))
                                        (locOffset (genStackMap genInfo) reg))))
                         (calleeSave (callConv genInfo));
          asm2 = (if spillSize (genStackMap genInfo) \<noteq> 0
                  then asm1 @ [asm_add (Opnd (spReg (genBackend genInfo)))
                                 (Num (spillSize (genStackMap genInfo)))]
                  else asm1)
      in Inr (asm2 @ [asm_ret]))"

text \<open>
  The dispatch on \<open>instr.x86.genCode\<close>. The default policy object
  \<open>IRInstr.prototype.x86\<close> has no \<open>genCode\<close>, which the driver asserts before the
  call. The generator of \<open>set_ctx\<close> reads the variable \<open>params\<close>, which is not
  among its parameters: a ReferenceError. The generators of \<open>get_ctx\<close>, of the calls
  and of \<open>load\<close> emit nothing or a \<open>nop\<close>.
\<close>

definition genCode ::
  "store \<Rightarrow> IRTypeObj option \<Rightarrow> BlockInstr \<Rightarrow> x86_Operand list \<Rightarrow> x86_Operand option
     \<Rightarrow> Assembler \<Rightarrow> GenInfo \<Rightarrow> error + Assembler" where
  "genCode h thisType instr ops d asm genInfo =
     (case instrClass instr of
        GetCtxInstr_class \<Rightarrow> Inr asm
      | SetCtxInstr_class \<Rightarrow> Inl (ReferenceError ''params is not defined'')
      | AddInstr_class \<Rightarrow> AddInstr_x86_genCode instr ops d asm genInfo
      | SubInstr_class \<Rightarrow> SubInstr_x86_genCode instr ops d asm genInfo
      | MulInstr_class \<Rightarrow> MulInstr_x86_genCode instr ops d asm genInfo
      | ModInstr_class \<Rightarrow> ModInstr_x86_genCode thisType instr ops d asm genInfo
      | LsftInstr_class \<Rightarrow> LsftInstr_x86_genCode instr ops d asm genInfo
      | CallFuncInstr_class \<Rightarrow> Inr (asm @ [asm_nop])
      | JumpInstr_class \<Rightarrow> JumpInstr_x86_genCode instr ops d asm genInfo
      | IfInstr_class \<Rightarrow> IfInstr_x86_genCode h instr ops d asm genInfo
      | RetInstr_class \<Rightarrow> RetInstr_x86_genCode instr ops d asm genInfo
      | LoadInstr_class \<Rightarrow> Inr (asm @ [asm_nop])
      | _ \<Rightarrow> Inl (AssertionError ''no genCode method''))"

subsection \<open>The emission driver\<close>

definition isPseudoInstr :: "BlockInstr \<Rightarrow> bool" where
  "isPseudoInstr instr =
     (instrClass instr = ArgValInstr_class \<or> instrClass instr = GetNumArgsInstr_class
      \<or> instrClass instr = GetArgTableInstr_class \<or> instrClass instr = PhiInstr_class)"

text \<open>The loop over the instructions of a block.\<close>

fun emitInstrs ::
  "store \<Rightarrow> IRTypeObj option \<Rightarrow> AllocInfo \<Rightarrow> GenInfo \<Rightarrow> Params \<Rightarrow> Assembler
     \<Rightarrow> BlockInstr list \<Rightarrow> error + Assembler" where
  "emitInstrs h thisType allocInfo genInfo params asm [] = Inr asm"
| "emitInstrs h thisType allocInfo genInfo params asm (instr # rest) =
     (if isPseudoInstr instr
      then emitInstrs h thisType allocInfo genInfo params asm rest
      else if instrClass instr = OtherInstr_class
      then Inl (AssertionError ''no genCode method'')
      else case instrMap allocInfo (instrId instr) of
             None \<Rightarrow> Inl (TypeError ''cannot read property preMoves of undefined'')
           | Some instrAlloc \<Rightarrow>
               andThen (insertMoves asm (preMoves instrAlloc) params) (\<lambda>asm1.
               andThen (genCode h thisType instr (opnds instrAlloc) (dest instrAlloc)
                          asm1 genInfo) (\<lambda>asm2.
               emitInstrs h thisType allocInfo genInfo params asm2 rest)))"

text \<open>The loop over the predecessors of a block, before its label.\<close>

fun emitPredTrans ::
  "CFG \<Rightarrow> AllocInfo \<Rightarrow> (nat \<rightharpoonup> x86_Label) \<Rightarrow> (CfgEdge, x86_Label) HashMap \<Rightarrow> Params
     \<Rightarrow> BasicBlock_ref \<Rightarrow> Assembler \<Rightarrow> BasicBlock_ref list \<Rightarrow> error + Assembler" where
  "emitPredTrans cfg allocInfo blockLabels edgeLbls params block asm [] = Inr asm"
| "emitPredTrans cfg allocInfo blockLabels edgeLbls params block asm (pred # rest) =
     (if length (succs (cfg pred)) = 1
      then emitPredTrans cfg allocInfo blockLabels edgeLbls params block asm rest
      else andThen
             (insertEdgeTrans cfg asm pred block (mergeMoves allocInfo) blockLabels edgeLbls
                params)
             (\<lambda>asm'. emitPredTrans cfg allocInfo blockLabels edgeLbls params block asm' rest))"

text \<open>
  The body of the loop over the block ordering. \<open>blockLabels[block.blockId]\<close> was
  written by the first loop for every block of the ordering.
\<close>

definition emitBlock ::
  "store \<Rightarrow> IRTypeObj option \<Rightarrow> CFG \<Rightarrow> AllocInfo \<Rightarrow> (nat \<rightharpoonup> x86_Label) \<Rightarrow> GenInfo \<Rightarrow> Params
     \<Rightarrow> Assembler \<Rightarrow> BasicBlock_ref \<Rightarrow> error + Assembler" where
  "emitBlock h thisType cfg allocInfo blockLabels genInfo params asm block =
     andThen (emitPredTrans cfg allocInfo blockLabels (edgeLabels genInfo) params block asm
                (preds (cfg block))) (\<lambda>asm1.
     andThen (case blockLabels (blockId (cfg block)) of
                None \<Rightarrow> Inl (TypeError ''label is undefined'')
              | Some l \<Rightarrow> Inr (asm1 @ [asm_addInstr l])) (\<lambda>asm2.
     andThen (emitInstrs h thisType allocInfo genInfo params asm2 (instrs (cfg block)))
       (\<lambda>asm3.
     if length (succs (cfg block)) = 1
     then insertEdgeTrans cfg asm3 block (succs (cfg block) ! 0) (mergeMoves allocInfo)
            blockLabels (edgeLabels genInfo) params
     else Inr asm3)))"

fun emitBlocks ::
  "store \<Rightarrow> IRTypeObj option \<Rightarrow> CFG \<Rightarrow> AllocInfo \<Rightarrow> (nat \<rightharpoonup> x86_Label) \<Rightarrow> GenInfo \<Rightarrow> Params
     \<Rightarrow> Assembler \<Rightarrow> BasicBlock_ref list \<Rightarrow> error + Assembler" where
  "emitBlocks h thisType cfg allocInfo blockLabels genInfo params asm [] = Inr asm"
| "emitBlocks h thisType cfg allocInfo blockLabels genInfo params asm (block # rest) =
     andThen (emitBlock h thisType cfg allocInfo blockLabels genInfo params asm block)
       (\<lambda>asm'. emitBlocks h thisType cfg allocInfo blockLabels genInfo params asm' rest)"

text \<open>
  The first loop of \<open>x86.irToASM\<close>: a label for every block of the ordering and one
  for every edge to a successor of such a block.
\<close>

definition makeBlockLabels :: "CFG \<Rightarrow> BasicBlock_ref list \<Rightarrow> (nat \<rightharpoonup> x86_Label)" where
  "makeBlockLabels cfg blockOrder =
     foldl (\<lambda>labels pred. labels(blockId (cfg pred) \<mapsto> Label (getBlockName (cfg pred))))
       Map.empty blockOrder"

definition makeEdgeLabels ::
  "CFG \<Rightarrow> BasicBlock_ref list \<Rightarrow> (CfgEdge, x86_Label) HashMap" where
  "makeEdgeLabels cfg blockOrder =
     foldl (\<lambda>labels pred.
              foldl (\<lambda>labels' succ.
                       addItem labels' (pred, succ)
                         (Label (getBlockName (cfg pred) @ ''_'' @ getBlockName (cfg succ))))
                labels (succs (cfg pred)))
       Map.empty blockOrder"

text \<open>The prologue: room for the spills, then the callee-save registers.\<close>

definition prologue :: "AllocInfo \<Rightarrow> CallConv \<Rightarrow> Backend \<Rightarrow> Assembler" where
  "prologue allocInfo cc be =
     (if spillSize (stackMap allocInfo) \<noteq> 0
      then [asm_sub (Opnd (spReg be)) (Num (spillSize (stackMap allocInfo)))] else [])
     @ map (\<lambda>reg. asm_mov (Opnd (MemLoc (regSizeBits be) (spReg be)
                                    (locOffset (stackMap allocInfo) reg)))
                     (Opnd reg))
         (calleeSave cc)"

text \<open>
  \<open>x86.irToASM\<close>. The function of the source takes the IR function, of which it uses
  the calling convention it selects; here the convention is given, with the store of
  the IR values, the control-flow graph and the property \<open>type\<close> of the policy
  objects.
\<close>

definition irToASM ::
  "store \<Rightarrow> IRTypeObj option \<Rightarrow> CFG \<Rightarrow> CallConv \<Rightarrow> BasicBlock_ref list \<Rightarrow> AllocInfo
     \<Rightarrow> Backend \<Rightarrow> Params \<Rightarrow> error + Assembler" where
  "irToASM h thisType cfg cc blockOrder allocInfo be params =
     (let asm = prologue allocInfo cc be;
          blockLabels = makeBlockLabels cfg blockOrder;
          edgeLbls = makeEdgeLabels cfg blockOrder;
          genInfo = \<lparr> callConv = cc, edgeLabels = edgeLbls, genStackMap = stackMap allocInfo,
                      genBackend = be, genParams = params \<rparr>
      in emitBlocks h thisType cfg allocInfo blockLabels genInfo params asm blockOrder)"

section \<open>Definitions that follow the words of the specification\<close>

text \<open>
  The default typing rule of the arithmetic instructions as the specification words it:
  two inputs of matching type, which is box or numeric.
\<close>

definition arithDefaultTypes :: "IRTypeObj \<Rightarrow> IRTypeObj \<Rightarrow> bool" where
  "arithDefaultTypes ta tb = ((ta = IRType_box \<or> isNumberType ta) \<and> tb = ta)"

text \<open>
  The mnemonic as the specification words it (\<open>mnemonic_claimed\<close>): the type
  parameters if there are any; otherwise the one type of the inputs if they all have the
  same type and it is not box; otherwise the type of every input. And the rule as
  amended (\<open>mnemonic_amended\<close>): inputs that all have the type box add nothing.
\<close>

definition suffixes :: "IRTypeObj list \<Rightarrow> string" where
  "suffixes ts = concat (map (\<lambda>t. ''_'' @ name t) ts)"

definition mnemonic_claimed :: "string \<Rightarrow> IRTypeObj list \<Rightarrow> IRTypeObj list \<Rightarrow> string" where
  "mnemonic_claimed base tps inTypes =
     (if tps \<noteq> [] then base @ suffixes tps
      else case inTypes of
             [] \<Rightarrow> base
           | t # ts \<Rightarrow> if list_all (\<lambda>u. u = t) ts \<and> t \<noteq> IRType_box
                       then base @ ''_'' @ name t
                       else base @ suffixes inTypes)"

definition mnemonic_amended :: "string \<Rightarrow> IRTypeObj list \<Rightarrow> IRTypeObj list \<Rightarrow> string" where
  "mnemonic_amended base tps inTypes =
     (if tps \<noteq> [] then base @ suffixes tps
      else case inTypes of
             [] \<Rightarrow> base
           | t # ts \<Rightarrow> if list_all (\<lambda>u. u = t) ts
                       then (if t \<noteq> IRType_box then base @ ''_'' @ name t else base)
                       else base @ suffixes inTypes)"

text \<open>
  The requests the constructor of a constant accepts, as the specification words them:
  an integer type requires an integer-valued literal, a floating-point type a numeric
  literal, and only box admits a string literal.
\<close>

definition validConstant :: "js_value \<Rightarrow> IRTypeObj \<Rightarrow> bool" where
  "validConstant v t =
     ((if isIntType t then isNumberValue v \<and> isWholeNumber v else True)
      \<and> (if isFPType t then isNumberValue v else True)
      \<and> (if isStringValue v then t = IRType_box else True))"

text \<open>
  The entry of the table of constants for a value and a type, and the invariant of the
  table: an entry is for a request that the constructor accepts and names a constant
  object that exists and holds that value and type.
\<close>

definition lookupConst :: "ConstState \<Rightarrow> js_value \<Rightarrow> IRTypeObj \<Rightarrow> ref option" where
  "lookupConst s v t = (case constMap s v of None \<Rightarrow> None | Some typeMap \<Rightarrow> typeMap t)"

definition constInvariant :: "ConstState \<Rightarrow> bool" where
  "constInvariant s =
     (\<forall>v t r. lookupConst s v t = Some r \<longrightarrow>
        validConstant v t
        \<and> r < length (constObjects s) \<and> constObjects s ! r = \<lparr> type = t, value = v \<rparr>)"

text \<open>
  The emission of the driver as the specification words it. The code of one abstract move
  is what \<open>insertMove\<close> emits for it on an empty assembler; the stub of an edge is the
  edge label, the code of the merge moves of the edge in order, and a jump to the label of
  the successor block; the code of a block is the stubs of the predecessors that have
  more than one successor, the block label, the code of its instructions, and the stub
  of its edge when it has exactly one successor.
\<close>

definition isMemToMemMov :: "asm_call \<Rightarrow> bool" where
  "isMemToMemMov c =
     (case c of
        asm_mov (Opnd d) (Opnd s) \<Rightarrow> isMemLoc d \<and> isMemLoc s
      | _ \<Rightarrow> False)"

definition emitted :: "error + Assembler \<Rightarrow> Assembler" where
  "emitted r = (case r of Inl e \<Rightarrow> [] | Inr asm \<Rightarrow> asm)"

definition succeeds :: "error + 'a \<Rightarrow> bool" where
  "succeeds r = (case r of Inl e \<Rightarrow> False | Inr x \<Rightarrow> True)"

definition moveCode :: "Params \<Rightarrow> Move \<Rightarrow> Assembler" where
  "moveCode params m = emitted (insertMove [] m params)"

definition blockLabel :: "CFG \<Rightarrow> BasicBlock_ref \<Rightarrow> x86_Label" where
  "blockLabel cfg b = Label (getBlockName (cfg b))"

definition edgeLabel :: "CFG \<Rightarrow> BasicBlock_ref \<Rightarrow> BasicBlock_ref \<Rightarrow> x86_Label" where
  "edgeLabel cfg p s = Label (getBlockName (cfg p) @ ''_'' @ getBlockName (cfg s))"

definition edgeTransStub ::
  "CFG \<Rightarrow> AllocInfo \<Rightarrow> Params \<Rightarrow> BasicBlock_ref \<Rightarrow> BasicBlock_ref \<Rightarrow> Assembler" where
  "edgeTransStub cfg allocInfo params p s =
     [asm_addInstr (edgeLabel cfg p s)]
     @ concat (map (moveCode params)
                 (case mergeMoves allocInfo (p, s) of None \<Rightarrow> [] | Some ms \<Rightarrow> ms))
     @ [asm_jmp (Some (blockLabel cfg s))]"

definition genInfoOf ::
  "CFG \<Rightarrow> CallConv \<Rightarrow> BasicBlock_ref list \<Rightarrow> AllocInfo \<Rightarrow> Backend \<Rightarrow> Params \<Rightarrow> GenInfo" where
  "genInfoOf cfg cc blockOrder allocInfo be params =
     \<lparr> callConv = cc, edgeLabels = makeEdgeLabels cfg blockOrder,
       genStackMap = stackMap allocInfo, genBackend = be, genParams = params \<rparr>"

definition instrsCode ::
  "store \<Rightarrow> IRTypeObj option \<Rightarrow> AllocInfo \<Rightarrow> GenInfo \<Rightarrow> Params \<Rightarrow> BlockInstr list
     \<Rightarrow> Assembler" where
  "instrsCode h thisType allocInfo genInfo params instrList =
     emitted (emitInstrs h thisType allocInfo genInfo params [] instrList)"

definition blockCode ::
  "store \<Rightarrow> IRTypeObj option \<Rightarrow> CFG \<Rightarrow> AllocInfo \<Rightarrow> GenInfo \<Rightarrow> Params \<Rightarrow> BasicBlock_ref
     \<Rightarrow> Assembler" where
  "blockCode h thisType cfg allocInfo genInfo params b =
     concat (map (\<lambda>p. edgeTransStub cfg allocInfo params p b)
               (filter (\<lambda>p. length (succs (cfg p)) > 1) (preds (cfg b))))
     @ [asm_addInstr (blockLabel cfg b)]
     @ instrsCode h thisType allocInfo genInfo params (instrs (cfg b))
     @ (if length (succs (cfg b)) = 1
        then edgeTransStub cfg allocInfo params b (succs (cfg b) ! 0) else [])"

text \<open>
  What the driver is given, when well formed: the blocks of the ordering have ids of
  their own; the predecessors and successors of a block of the ordering are in the
  ordering, and a block is among the successors of each of its predecessors; the plan
  has the merge moves of every edge, each of them a move that \<open>insertMove\<close> accepts;
  and the instructions of every block can be emitted.
\<close>

definition wellFormedInput ::
  "store \<Rightarrow> IRTypeObj option \<Rightarrow> CFG \<Rightarrow> CallConv \<Rightarrow> BasicBlock_ref list \<Rightarrow> AllocInfo
     \<Rightarrow> Backend \<Rightarrow> Params \<Rightarrow> bool" where
  "wellFormedInput h thisType cfg cc blockOrder allocInfo be params =
     (inj_on (\<lambda>b. blockId (cfg b)) (set blockOrder)
      \<and> (\<forall>b \<in> set blockOrder.
            (\<forall>p \<in> set (preds (cfg b)). p \<in> set blockOrder \<and> b \<in> set (succs (cfg p)))
            \<and> (\<forall>s \<in> set (succs (cfg b)). s \<in> set blockOrder
                  \<and> (\<exists>ms. mergeMoves allocInfo (b, s) = Some ms
                         \<and> list_all (\<lambda>m. succeeds (insertMove [] m params)) ms))
            \<and> succeeds (emitInstrs h thisType allocInfo
                          (genInfoOf cfg cc blockOrder allocInfo be params) params []
                          (instrs (cfg b)))))"

text \<open>
  Emission on an assembler that already holds calls: the calls are kept and the new
  ones come after them.
\<close>

definition appendTo :: "Assembler \<Rightarrow> error + Assembler \<Rightarrow> error + Assembler" where
  "appendTo asm r = (case r of Inl e \<Rightarrow> Inl e | Inr code \<Rightarrow> Inr (asm @ code))"

section \<open>Concrete inputs\<close>

text \<open>Stores of constants only: every reference holds a box constant, or an i32 one.\<close>

definition boxedStore :: store where
  "boxedStore = (\<lambda>r. Const \<lparr> type = IRType_box, value = JSUndefined \<rparr>)"

definition i32Store :: store where
  "i32Store = (\<lambda>r. Const \<lparr> type = IRType_i32, value = JSNumber (of_nat r) \<rparr>)"









text \<open>A 64-bit backend, and moves between a register and memory locations.\<close>

definition exampleBackend :: Backend where
  "exampleBackend = \<lparr> x86_64 = True, regSizeBits = 64, spReg = Reg ''rsp'' \<rparr>"

definition exampleParams :: Params where
  "exampleParams = \<lparr> backend = exampleBackend, getImmSize = (\<lambda>c. Some 32),
     getImmValue = (\<lambda>c. 5) \<rparr>"

definition moveRegToMem :: Move where
  "moveRegToMem = \<lparr> src = X86Operand (Reg ''rax''),
     dst = X86Operand (MemLoc 64 (Reg ''rsp'') 8) \<rparr>"

definition moveMemToMem :: Move where
  "moveMemToMem = \<lparr> src = X86Operand (MemLoc 64 (Reg ''rsp'') 16),
     dst = X86Operand (MemLoc 64 (Reg ''rsp'') 8) \<rparr>"

definition moveConstToReg :: Move where
  "moveConstToReg = \<lparr> src = ConstSrc \<lparr> type = IRType_box, value = JSNumber 5 \<rparr>,
     dst = X86Operand (Reg ''rbx'') \<rparr>"

text \<open>
  A function of three blocks, named by the references 10, 20 and 30: block \<open>A\<close> ends in
  an \<open>if\<close> with the targets \<open>B\<close> and \<open>C\<close>; block \<open>B\<close> jumps to \<open>C\<close>; block
  \<open>C\<close> returns. The edge from \<open>A\<close> to \<open>C\<close> is critical.
\<close>

definition exampleInstr :: "nat \<Rightarrow> InstrClass \<Rightarrow> BasicBlock_ref \<Rightarrow> BasicBlock_ref list \<Rightarrow> BlockInstr" where
  "exampleInstr n c b ts = \<lparr> type = IRType_none, mnemonic = Some [], outName = [],
     instrId = n, uses = [0], dests = [], targets = ts, sideEffects = False,
     parentBlock = Some b, typeParams = [], targetNames = None, instrClass = c,
     testOp = ''EQ'' \<rparr>"

definition exampleCFG :: CFG where
  "exampleCFG = (\<lambda>r.
     if r = 10 then \<lparr> blockId = 10, blockName = ''A'', preds = [], succs = [20, 30],
                      instrs = [exampleInstr 11 IfInstr_class 10 [20, 30]] \<rparr>
     else if r = 20 then \<lparr> blockId = 20, blockName = ''B'', preds = [10], succs = [30],
                      instrs = [exampleInstr 21 JumpInstr_class 20 [30]] \<rparr>
     else \<lparr> blockId = 30, blockName = ''C'', preds = [10, 20], succs = [],
            instrs = [exampleInstr 31 RetInstr_class 30 []] \<rparr>)"

definition exampleCallConv :: CallConv where
  "exampleCallConv = \<lparr> calleeSave = [], retReg = Reg ''rax'' \<rparr>"

definition exampleAllocInfo :: AllocInfo where
  "exampleAllocInfo = \<lparr>
     stackMap = \<lparr> spillSize = 0, locOffset = (\<lambda>r. 0) \<rparr>,
     mergeMoves = [(10, 20) \<mapsto> [moveRegToMem], (10, 30) \<mapsto> [],
                   (20, 30) \<mapsto> [moveConstToReg]],
     instrMap = (\<lambda>n. Some \<lparr> preMoves = [], opnds = [Reg ''rax'', Reg ''rbx''],
                             dest = None, scratchRegs = [] \<rparr>) \<rparr>"

text \<open>
  The table of constants after the value 0 was asked for at box, and after it was then
  asked for at i32.
\<close>

definition constStateOne :: ConstState where
  "constStateOne = \<lparr> constMap = [JSNumber 0 \<mapsto> [IRType_box \<mapsto> 0]],
     constObjects = [\<lparr> type = IRType_box, value = JSNumber 0 \<rparr>] \<rparr>"

definition constStateTwo :: ConstState where
  "constStateTwo = \<lparr> constMap = [JSNumber 0 \<mapsto> [IRType_box \<mapsto> 0, IRType_i32 \<mapsto> 1]],
     constObjects = [\<lparr> type = IRType_box, value = JSNumber 0 \<rparr>,
                     \<lparr> type = IRType_i32, value = JSNumber 0 \<rparr>] \<rparr>"

section \<open>Properties of the instruction constructors\<close>

subsection \<open>Argument parsing and the factory\<close>

lemma typeArgs_map: "typeArgs (map TypeArg tps) = tps"
  by (induction tps) auto
lemma valueArgs_map: "valueArgs (map ValueArg vs) = vs"
  by (induction vs) auto
lemma blockArgs_map: "blockArgs (map BlockArg bs) = bs"
  by (induction bs) auto

lemma map_typeArgs: "list_all isTypeArg xs \<Longrightarrow> map TypeArg (typeArgs xs) = xs"
proof (induction xs)
  case Nil then show ?case by simp
next
  case (Cons x xs) then show ?case by (cases x) auto
qed
lemma map_valueArgs: "list_all isValueArg xs \<Longrightarrow> map ValueArg (valueArgs xs) = xs"
proof (induction xs)
  case Nil then show ?case by simp
next
  case (Cons x xs) then show ?case by (cases x) auto
qed
lemma map_blockArgs: "list_all isBlockArg xs \<Longrightarrow> map BlockArg (blockArgs xs) = xs"
proof (induction xs)
  case Nil then show ?case by simp
next
  case (Cons x xs) then show ?case by (cases x) auto
qed

lemma list_all_takeWhile: "list_all P (takeWhile P xs)"
  by (induction xs) auto

lemma run_type: "takeWhile isTypeArg (map TypeArg tps @ map ValueArg ins @ map BlockArg brs) = map TypeArg tps"
  by (induction tps) (cases ins; cases brs; simp)+
lemma rest_type: "dropWhile isTypeArg (map TypeArg tps @ map ValueArg ins @ map BlockArg brs) = map ValueArg ins @ map BlockArg brs"
  by (induction tps) (cases ins; cases brs; simp)+
lemma run_value: "takeWhile isValueArg (map ValueArg ins @ map BlockArg brs) = map ValueArg ins"
  by (induction ins) (cases brs; simp)+
lemma rest_value: "dropWhile isValueArg (map ValueArg ins @ map BlockArg brs) = map BlockArg brs"
  by (induction ins) (cases brs; simp)+
lemma run_block: "takeWhile isBlockArg (map BlockArg brs) = map BlockArg brs"
  by (induction brs) simp_all
lemma rest_block: "dropWhile isBlockArg (map BlockArg brs) = []"
  by (induction brs) simp_all

lemma parseArgs_partitioned:
  "parseArgs m (map TypeArg tps @ map ValueArg ins @ map BlockArg brs) = Inr (tps, ins, brs)"
  by (simp add: parseArgs_def Let_def run_type rest_type run_value rest_value run_block rest_block
      typeArgs_map valueArgs_map blockArgs_map)

lemma parseArgs_Inr:
  assumes "parseArgs m args = Inr (tps, ins, brs)"
  shows "args = map TypeArg tps @ map ValueArg ins @ map BlockArg brs"
proof -
  let ?r1 = "dropWhile isTypeArg args"
  let ?r2 = "dropWhile isValueArg ?r1"
  from assms have r3: "dropWhile isBlockArg ?r2 = []"
    and t: "tps = typeArgs (takeWhile isTypeArg args)"
    and i: "ins = valueArgs (takeWhile isValueArg ?r1)"
    and b: "brs = blockArgs (takeWhile isBlockArg ?r2)"
    by (auto simp: parseArgs_def Let_def split: if_splits)
  have "args = takeWhile isTypeArg args @ takeWhile isValueArg ?r1 @ takeWhile isBlockArg ?r2 @ dropWhile isBlockArg ?r2"
    by simp
  then have "args = takeWhile isTypeArg args @ takeWhile isValueArg ?r1 @ takeWhile isBlockArg ?r2"
    using r3 by simp
  moreover have "map TypeArg tps = takeWhile isTypeArg args"
    unfolding t by (rule map_typeArgs) (rule list_all_takeWhile)
  moreover have "map ValueArg ins = takeWhile isValueArg ?r1"
    unfolding i by (rule map_valueArgs) (rule list_all_takeWhile)
  moreover have "map BlockArg brs = takeWhile isBlockArg ?r2"
    unfolding b by (rule map_blockArgs) (rule list_all_takeWhile)
  ultimately show ?thesis by simp
qed

lemma pint_i64: "IRType_pint = IRType_i64"
  by (simp add: IRType_pint_def PLATFORM_PTR_SIZE_def)

lemma instrMaker_partitioned:
  "instrMaker mnem (Some f) bn proto h (map TypeArg tps @ map ValueArg ins @ map BlockArg brs) =
     (let protoO = (case proto of None \<Rightarrow> new_IRInstr_proto | Some p \<Rightarrow> p);
          this0 = (protoFields protoO)\<lparr>targetNames := bn\<rparr>
      in case f h this0 tps ins brs of
             Inl e \<Rightarrow> Inl (InvalidArguments mnem e)
           | Inr this1 \<Rightarrow>
               (let this2 = (if mnemonic this1 = Some []
                             then setName mnem h this1 tps ins else this1);
                    this3 = this2\<lparr>typeParams := tps, uses := ins\<rparr>
                in Inr (if bn \<noteq> None
                        then this3\<lparr>targets := brs\<rparr> else this3)))"
  by (simp add: instrMaker_def parseArgs_partitioned andThen_def Let_def)

lemma type_setName: "type (setName m h this tps ins) = type this"
  by (simp add: setName_def Let_def split: option.splits list.splits)

lemma sideEffects_setName: "sideEffects (setName m h this tps ins) = sideEffects this"
  by (simp add: setName_def Let_def split: option.splits list.splits)

lemma map_ValueArg_pair: "map ValueArg [a, b] = [ValueArg a, ValueArg b]" by simp


lemma foldl_suffix_types:
  "foldl (\<lambda>m t. Some (mnemonicString m @ ''_'' @ toString t)) (Some base) tps
     = Some (base @ suffixes tps)"
  by (induction tps arbitrary: base) (simp_all add: suffixes_def mnemonicString_def toString_def)

lemma foldl_suffix_values:
  "foldl (\<lambda>m v. Some (mnemonicString m @ ''_'' @ toString (typeOf (h v)))) (Some base) vs
     = Some (base @ suffixes (map (\<lambda>v. typeOf (h v)) vs))"
  by (induction vs arbitrary: base) (simp_all add: suffixes_def mnemonicString_def toString_def)

lemma list_all_same: "list_all (\<lambda>v. typeOf (h v) = t) vs = list_all (\<lambda>u. u = t) (map (\<lambda>v. typeOf (h v)) vs)"
  by (induction vs) auto

lemma setName_amended:
  "mnemonic (setName (Some base) h this tps ins)
     = Some (mnemonic_amended base tps (map (\<lambda>v. typeOf (h v)) ins))"
proof (cases "tps = []")
  case False
  then show ?thesis
    unfolding setName_def foldl_suffix_types by (simp add: mnemonic_amended_def)
next
  case True
  show ?thesis
  proof (cases ins)
    case Nil
    with True show ?thesis by (simp add: setName_def mnemonic_amended_def)
  next
    case (Cons v vs)
    with True show ?thesis
      unfolding setName_def foldl_suffix_values
      by (simp add: mnemonic_amended_def list_all_same mnemonicString_def Let_def)
  qed
qed

lemma AddInstr_pair:
  "AddInstr h [ValueArg a, ValueArg b] =
      (case AddInstr_initFunc h ((protoFields new_ArithInstr)\<lparr>targetNames := None\<rparr>) [] [a, b] [] of
         Inl e \<Rightarrow> Inl (InvalidArguments (Some ''add'') e)
       | Inr this1 \<Rightarrow> Inr ((if mnemonic this1 = Some [] then setName (Some ''add'') h this1 [] [a, b] else this1)
            \<lparr>typeParams := [], uses := [a, b]\<rparr>))"
  using instrMaker_partitioned [of "Some ''add''" AddInstr_initFunc None "Some new_ArithInstr" h "[]" "[a, b]" "[]"]
  by (simp add: AddInstr_def Let_def split: sum.split)


lemma instrMaker_Inr:
  assumes "instrMaker mnem (Some f) bn proto h args = Inr i"
  shows "\<exists>tps ins brs this1.
           args = map TypeArg tps @ map ValueArg ins @ map BlockArg brs
           \<and> f h ((protoFields (case proto of None \<Rightarrow> new_IRInstr_proto | Some p \<Rightarrow> p))
                     \<lparr>targetNames := bn\<rparr>) tps ins brs = Inr this1
           \<and> i = (let this3 = (if mnemonic this1 = Some [] then setName mnem h this1 tps ins else this1)
                        \<lparr>typeParams := tps, uses := ins\<rparr>
                   in if bn \<noteq> None then this3\<lparr>targets := brs\<rparr> else this3)"
proof -
  from assms obtain tps ins brs where p: "parseArgs mnem args = Inr (tps, ins, brs)"
    by (cases "parseArgs mnem args") (auto simp: instrMaker_def andThen_def Let_def)
  have shape: "args = map TypeArg tps @ map ValueArg ins @ map BlockArg brs"
    using p by (rule parseArgs_Inr)
  let ?this0 = "(protoFields (case proto of None \<Rightarrow> new_IRInstr_proto | Some p \<Rightarrow> p))
                     \<lparr>targetNames := bn\<rparr>"
  from assms obtain this1 where f: "f h ?this0 tps ins brs = Inr this1"
    unfolding shape instrMaker_partitioned
    by (cases "f h ?this0 tps ins brs") (auto simp: Let_def)
  from assms have "i = (let this3 = (if mnemonic this1 = Some [] then setName mnem h this1 tps ins else this1)
                        \<lparr>typeParams := tps, uses := ins\<rparr>
                   in if bn \<noteq> None then this3\<lparr>targets := brs\<rparr> else this3)"
    unfolding shape instrMaker_partitioned using f by (simp add: Let_def)
  with shape f show ?thesis by blast
qed

lemma untyped_initFunc_Inr:
  assumes "untypedInstrMaker_initFunc n bn vo se h this tps ins brs = Inr this1"
  shows "length ins = n \<and> list_all (\<lambda>v. typeOf (h v) = IRType_box) ins
         \<and> length brs = (case bn of None \<Rightarrow> 0 | Some names \<Rightarrow> length names)
         \<and> this1 = this\<lparr>type := (if truthy vo then IRType_none else IRType_box),
                            sideEffects := (se \<noteq> JSUndefined)\<rparr>"
  using assms
  by (auto simp: untypedInstrMaker_initFunc_def andThen_def validNumInputs_def validCount_def
      allValsBoxed_def assert_def Let_def split: if_splits option.splits)

lemma untyped_initFunc_ok:
  assumes "length ins = n" "list_all (\<lambda>v. typeOf (h v) = IRType_box) ins"
    "length brs = (case bn of None \<Rightarrow> 0 | Some names \<Rightarrow> length names)"
  shows "untypedInstrMaker_initFunc n bn vo se h this tps ins brs =
           Inr (this\<lparr>type := (if truthy vo then IRType_none else IRType_box),
                            sideEffects := (se \<noteq> JSUndefined)\<rparr>)"
  using assms
  by (auto simp: untypedInstrMaker_initFunc_def andThen_def validNumInputs_def validCount_def
      allValsBoxed_def assert_def Let_def split: if_splits option.splits)

lemma untypedInstrMaker_Inr:
  assumes "untypedInstrMaker m n bn vo se proto h args = Inr i"
  shows "args = map TypeArg (typeParams i) @ map ValueArg (uses i)
                  @ map BlockArg (if bn = None then [] else targets i)
         \<and> length (uses i) = n \<and> list_all (\<lambda>v. typeOf (h v) = IRType_box) (uses i)
         \<and> (bn = None \<or> length (targets i) = length (the bn))
         \<and> type i = (if truthy vo then IRType_none else IRType_box)
         \<and> sideEffects i = (se \<noteq> JSUndefined)"
proof -
  from instrMaker_Inr [OF assms [unfolded untypedInstrMaker_def]]
  obtain tps ins brs this1 where
    shape: "args = map TypeArg tps @ map ValueArg ins @ map BlockArg brs"
    and init: "untypedInstrMaker_initFunc n bn vo se h
                 ((protoFields (case proto of None \<Rightarrow> new_IRInstr_proto | Some p \<Rightarrow> p))
                     \<lparr>targetNames := bn\<rparr>) tps ins brs = Inr this1"
    and i: "i = (let this3 = (if mnemonic this1 = Some [] then setName (Some m) h this1 tps ins else this1)
                        \<lparr>typeParams := tps, uses := ins\<rparr>
                   in if bn \<noteq> None then this3\<lparr>targets := brs\<rparr> else this3)"
    by blast
  note u = untyped_initFunc_Inr [OF init]
  show ?thesis
    using u unfolding shape i
    by (auto simp: Let_def type_setName sideEffects_setName split: option.splits)
qed


lemma AddInstr_i32: "AddInstr i32Store [ValueArg 0, ValueArg 1] =
   Inr (new_IRInstr\<lparr>type := IRType_i32, mnemonic := Some ''add_i32'', uses := [0, 1]\<rparr>)"
  by (simp add: AddInstr_pair AddInstr_initFunc_def andThen_def assert_def new_ArithInstr_def new_IRInstr_def
      validNumInputs_def validCount_def i32Store_def isNumberType_def setName_def
      mnemonicString_def toString_def)

lemma JumpInstr_boxedStore:
  "JumpInstr boxedStore [BlockArg 0] =
     Inr (new_IRInstr\<lparr>type := IRType_none, mnemonic := Some ''jump'', targets := [0],
                      targetNames := Some [None]\<rparr>)"
proof -
  have "JumpInstr boxedStore (map TypeArg [] @ map ValueArg [] @ map BlockArg [0]) =
     Inr (new_IRInstr\<lparr>type := IRType_none, mnemonic := Some ''jump'', targets := [0],
                      targetNames := Some [None]\<rparr>)"
    unfolding JumpInstr_def untypedInstrMaker_def instrMaker_partitioned
    by (simp add: untyped_initFunc_ok Let_def new_IRInstr_proto_def new_IRInstr_def setName_def)
  then show ?thesis by simp
qed

lemma FPToIInstr_initFunc_fails:
  "\<exists>e. FPToIInstr_initFunc h this tps ins brs = Inl e"
  by (auto simp: FPToIInstr_initFunc_def andThen_def assert_def IRTypeObj_type_def
      split: sum.splits option.splits)

lemma IToFPInstr_constructs:
  "IToFPInstr h [TypeArg IRType_f64, ValueArg v] =
     (if typeOf (h v) = IRType_pint
      then Inr (new_IRInstr\<lparr>type := IRType_f64, mnemonic := Some ''itof_f64'',
                  uses := [v], typeParams := [IRType_f64]\<rparr>)
      else Inl (InvalidArguments (Some ''itof'') (AssertionError ''invalid type parameters'')))"
proof -
  have "IToFPInstr h (map TypeArg [IRType_f64] @ map ValueArg [v] @ map BlockArg []) =
     (if typeOf (h v) = IRType_pint
      then Inr (new_IRInstr\<lparr>type := IRType_f64, mnemonic := Some ''itof_f64'',
                  uses := [v], typeParams := [IRType_f64]\<rparr>)
      else Inl (InvalidArguments (Some ''itof'') (AssertionError ''invalid type parameters'')))"
    unfolding IToFPInstr_def instrMaker_partitioned
    by (simp add: IToFPInstr_initFunc_def andThen_def assert_def 
        validNumParams_def validNumInputs_def validCount_def element0_def new_IRInstr_proto_def
        new_IRInstr_def setName_def mnemonicString_def toString_def)
  then show ?thesis by simp
qed

lemma SeqInstr_boxedStore:
  "SeqInstr boxedStore [ValueArg 0, ValueArg 1] =
     Inr (new_IRInstr\<lparr>mnemonic := Some ''seq'', uses := [0, 1], sideEffects := True\<rparr>)"
proof -
  have "SeqInstr boxedStore (map TypeArg [] @ map ValueArg [0, 1] @ map BlockArg []) =
     Inr (new_IRInstr\<lparr>mnemonic := Some ''seq'', uses := [0, 1], sideEffects := True\<rparr>)"
    unfolding SeqInstr_def untypedInstrMaker_def instrMaker_partitioned
    by (simp add: untyped_initFunc_ok Let_def new_IRInstr_proto_def new_IRInstr_def setName_def
        boxedStore_def new_CompInstr_object_def)
  then show ?thesis by simp
qed

lemma NseqInstr_boxedStore:
  "NseqInstr boxedStore [ValueArg 0, ValueArg 1] =
     Inr (new_IRInstr\<lparr>mnemonic := Some ''nseq'', uses := [0, 1], sideEffects := True\<rparr>)"
proof -
  have "NseqInstr boxedStore (map TypeArg [] @ map ValueArg [0, 1] @ map BlockArg []) =
     Inr (new_IRInstr\<lparr>mnemonic := Some ''nseq'', uses := [0, 1], sideEffects := True\<rparr>)"
    unfolding NseqInstr_def untypedInstrMaker_def instrMaker_partitioned
    by (simp add: untyped_initFunc_ok Let_def new_IRInstr_proto_def new_IRInstr_def setName_def
        boxedStore_def new_CompInstr_object_def)
  then show ?thesis by simp
qed

lemma seq_undefined_boxedStore:
  "untypedInstrMaker ''seq'' 2 None (JSBoolean False) JSUndefined None boxedStore
     [ValueArg 0, ValueArg 1] =
     Inr (new_IRInstr\<lparr>mnemonic := Some ''seq'', uses := [0, 1]\<rparr>)"
proof -
  have "untypedInstrMaker ''seq'' 2 None (JSBoolean False) JSUndefined None boxedStore
     (map TypeArg [] @ map ValueArg [0, 1] @ map BlockArg []) =
     Inr (new_IRInstr\<lparr>mnemonic := Some ''seq'', uses := [0, 1]\<rparr>)"
    unfolding untypedInstrMaker_def instrMaker_partitioned
    by (simp add: untyped_initFunc_ok Let_def new_IRInstr_proto_def new_IRInstr_def setName_def
        boxedStore_def)
  then show ?thesis by simp
qed

subsection \<open>Claims about the constructors\<close>

text \<open>
  Claim C3 (arithmetic typing). An \<open>add\<close> or a \<open>sub\<close> given two inputs, after any
  type parameters and before any branch targets, is constructed exactly when the input
  types are admitted, and then has the stated output type: two inputs of the same type
  that is box or numeric give that type; \<open>add\<close> and \<open>sub\<close> of (rptr, pint) give
  rptr; \<open>sub\<close> of (rptr, rptr) gives pint; every other pair of input types is
  rejected with an error.
\<close>

theorem arith_typing:
  "(if arithDefaultTypes (typeOf (h a)) (typeOf (h b))
       \<or> (typeOf (h a) = IRType_rptr \<and> typeOf (h b) = IRType_pint)
    then \<exists>i. AddInstr h (map TypeArg tps @ [ValueArg a, ValueArg b] @ map BlockArg brs) = Inr i
           \<and> type i = typeOf (h a)
    else \<exists>e. AddInstr h (map TypeArg tps @ [ValueArg a, ValueArg b] @ map BlockArg brs) = Inl e)
   \<and>
   (if arithDefaultTypes (typeOf (h a)) (typeOf (h b))
       \<or> (typeOf (h a) = IRType_rptr \<and> typeOf (h b) = IRType_pint)
    then \<exists>i. SubInstr h (map TypeArg tps @ [ValueArg a, ValueArg b] @ map BlockArg brs) = Inr i
           \<and> type i = typeOf (h a)
    else if typeOf (h a) = IRType_rptr \<and> typeOf (h b) = IRType_rptr
    then \<exists>i. SubInstr h (map TypeArg tps @ [ValueArg a, ValueArg b] @ map BlockArg brs) = Inr i
           \<and> type i = IRType_pint
    else \<exists>e. SubInstr h (map TypeArg tps @ [ValueArg a, ValueArg b] @ map BlockArg brs) = Inl e)"
proof -
  have add: "AddInstr h (map TypeArg tps @ map ValueArg [a, b] @ map BlockArg brs) =
      (case AddInstr_initFunc h ((protoFields new_ArithInstr)\<lparr>targetNames := None\<rparr>) tps [a, b] brs of
         Inl e \<Rightarrow> Inl (InvalidArguments (Some ''add'') e)
       | Inr this1 \<Rightarrow> Inr ((if mnemonic this1 = Some [] then setName (Some ''add'') h this1 tps [a, b] else this1)
            \<lparr>typeParams := tps, uses := [a, b]\<rparr>))"
    unfolding AddInstr_def instrMaker_partitioned by (simp add: Let_def split: sum.split)
  have sub: "SubInstr h (map TypeArg tps @ map ValueArg [a, b] @ map BlockArg brs) =
      (case SubInstr_initFunc h ((protoFields new_ArithInstr)\<lparr>targetNames := None\<rparr>) tps [a, b] brs of
         Inl e \<Rightarrow> Inl (InvalidArguments (Some ''sub'') e)
       | Inr this1 \<Rightarrow> Inr ((if mnemonic this1 = Some [] then setName (Some ''sub'') h this1 tps [a, b] else this1)
            \<lparr>typeParams := tps, uses := [a, b]\<rparr>))"
    unfolding SubInstr_def instrMaker_partitioned by (simp add: Let_def split: sum.split)
  have A: "(if arithDefaultTypes (typeOf (h a)) (typeOf (h b))
       \<or> (typeOf (h a) = IRType_rptr \<and> typeOf (h b) = IRType_pint)
    then \<exists>i. AddInstr h (map TypeArg tps @ map ValueArg [a, b] @ map BlockArg brs) = Inr i
           \<and> type i = typeOf (h a)
    else \<exists>e. AddInstr h (map TypeArg tps @ map ValueArg [a, b] @ map BlockArg brs) = Inl e)"
    unfolding add
    by (auto simp: AddInstr_initFunc_def arithDefaultTypes_def validNumInputs_def validCount_def
        andThen_def assert_def type_setName)
  have S: "(if arithDefaultTypes (typeOf (h a)) (typeOf (h b))
       \<or> (typeOf (h a) = IRType_rptr \<and> typeOf (h b) = IRType_pint)
    then \<exists>i. SubInstr h (map TypeArg tps @ map ValueArg [a, b] @ map BlockArg brs) = Inr i
           \<and> type i = typeOf (h a)
    else if typeOf (h a) = IRType_rptr \<and> typeOf (h b) = IRType_rptr
    then \<exists>i. SubInstr h (map TypeArg tps @ map ValueArg [a, b] @ map BlockArg brs) = Inr i
           \<and> type i = IRType_pint
    else \<exists>e. SubInstr h (map TypeArg tps @ map ValueArg [a, b] @ map BlockArg brs) = Inl e)"
    unfolding sub
    by (auto simp: SubInstr_initFunc_def arithDefaultTypes_def validNumInputs_def validCount_def
        andThen_def assert_def type_setName pint_i64 isNumberType_def)
  from A S show ?thesis unfolding map_ValueArg_pair by blast
qed

text \<open>
  Claim C4 (mnemonic synthesis), as amended. The mnemonic that \<open>setName\<close> gives is the
  base name followed by \<open>_t\<close> for each type parameter when there are type parameters;
  otherwise, when all the inputs have the same type, by that type once if it is not box
  and by nothing if it is box (or if there is no input); otherwise by the type of every
  input in order. An \<open>add\<close> that is constructed from two inputs has the mnemonic of
  this rule.
\<close>

theorem mnemonic_synthesis:
  "mnemonic (setName (Some base) h this tps ins)
     = Some (mnemonic_amended base tps (map (\<lambda>v. typeOf (h v)) ins))
   \<and> (AddInstr h [ValueArg a, ValueArg b] = Inr i
        \<longrightarrow> mnemonic i = Some (mnemonic_amended ''add'' [] [typeOf (h a), typeOf (h b)]))"
proof -
  have "AddInstr h [ValueArg a, ValueArg b] = Inr i
        \<Longrightarrow> mnemonic i = Some (mnemonic_amended ''add'' [] [typeOf (h a), typeOf (h b)])"
    unfolding AddInstr_pair
    using setName_amended [of "''add''" h _ "[]" "[a, b]"]
    by (auto simp: AddInstr_initFunc_def andThen_def assert_def new_ArithInstr_def new_IRInstr_def
        split: sum.splits if_splits)
  then show ?thesis using setName_amended by blast
qed

text \<open>
  The amended rule at two i32 constants: the \<open>add\<close> is constructed and its mnemonic
  is \<open>add_i32\<close>.
\<close>

theorem mnemonic_synthesis_witness:
  "AddInstr i32Store [ValueArg 0, ValueArg 1] =
     Inr (new_IRInstr\<lparr>type := IRType_i32, mnemonic := Some ''add_i32'', uses := [0, 1]\<rparr>)
   \<and> mnemonic (new_IRInstr\<lparr>type := IRType_i32, mnemonic := Some ''add_i32'', uses := [0, 1]\<rparr>)
       = Some (mnemonic_amended ''add'' [] [IRType_i32, IRType_i32])
   \<and> mnemonic_amended ''add'' [] [IRType_i32, IRType_i32] = ''add_i32''"
  using mnemonic_synthesis [of "''add''" i32Store new_IRInstr "[]" "[]" 0 1
      "new_IRInstr\<lparr>type := IRType_i32, mnemonic := Some ''add_i32'', uses := [0, 1]\<rparr>"]
    AddInstr_i32
  by (simp add: i32Store_def mnemonic_amended_def)

text \<open>
  The rule as claim C4 words it fails at two inputs of type box: its last case appends
  the type of every input, which gives \<open>add_box_box\<close>, and \<open>setName\<close> gives
  \<open>add\<close>.
\<close>

theorem mnemonic_synthesis_counterexample:
  "mnemonic (setName (Some ''add'') boxedStore new_IRInstr [] [0, 1]) = Some ''add''
   \<and> mnemonic_claimed ''add'' [] (map (\<lambda>v. typeOf (boxedStore v)) [0, 1]) = ''add_box_box''"
  by (simp add: setName_def boxedStore_def mnemonic_claimed_def suffixes_def)

text \<open>
  Claim C5 (jump), as amended. A \<open>jump\<close> that is constructed was given exactly one
  branch target (after any type parameters) and no input; its output type is none and
  its flag \<open>sideEffects\<close> is false. One branch target is enough for the construction.
\<close>

theorem JumpInstr_construction:
  "(JumpInstr h args = Inr i \<longrightarrow>
       args = map TypeArg (typeParams i) @ map BlockArg (targets i)
       \<and> length (targets i) = 1 \<and> uses i = []
       \<and> type i = IRType_none \<and> sideEffects i = False)
   \<and> (\<exists>j. JumpInstr h (map TypeArg tps @ [BlockArg b]) = Inr j)"
proof -
  have "\<exists>j. JumpInstr h (map TypeArg tps @ map ValueArg [] @ map BlockArg [b]) = Inr j"
    unfolding JumpInstr_def untypedInstrMaker_def instrMaker_partitioned
    by (simp add: untyped_initFunc_ok Let_def)
  then have ex: "\<exists>j. JumpInstr h (map TypeArg tps @ [BlockArg b]) = Inr j" by simp
  have "JumpInstr h args = Inr i \<Longrightarrow>
       args = map TypeArg (typeParams i) @ map BlockArg (targets i)
       \<and> length (targets i) = 1 \<and> uses i = []
       \<and> type i = IRType_none \<and> sideEffects i = False"
    using untypedInstrMaker_Inr [of "''jump''" 0 "Some [None]" "JSBoolean True" JSUndefined None h args i]
    by (simp add: JumpInstr_def)
  with ex show ?thesis by blast
qed

theorem JumpInstr_construction_witness:
  "JumpInstr boxedStore [BlockArg 0] =
     Inr (new_IRInstr\<lparr>type := IRType_none, mnemonic := Some ''jump'', targets := [0],
                      targetNames := Some [None]\<rparr>)
   \<and> sideEffects (new_IRInstr\<lparr>type := IRType_none, mnemonic := Some ''jump'', targets := [0],
                      targetNames := Some [None]\<rparr>) = False
   \<and> length (targets (new_IRInstr\<lparr>type := IRType_none, mnemonic := Some ''jump'', targets := [0],
                      targetNames := Some [None]\<rparr>)) = 1"
  using JumpInstr_construction [of boxedStore "[BlockArg 0]"
      "new_IRInstr\<lparr>type := IRType_none, mnemonic := Some ''jump'', targets := [0],
                      targetNames := Some [None]\<rparr>"] JumpInstr_boxedStore
  by simp

text \<open>
  Claim C5 as stated says that the flag \<open>sideEffects\<close> of a jump is true. The jump
  to block 0 is constructed and its flag is false: \<open>untypedInstrMaker\<close> is given four
  arguments, of which the last is \<open>voidOutput\<close>, and \<open>sideEffects\<close> stays undefined.
\<close>

theorem JumpInstr_sideEffects_counterexample:
  "map_sum id sideEffects (JumpInstr boxedStore [BlockArg 0]) = Inr False"
  by (simp add: JumpInstr_boxedStore new_IRInstr_def)

text \<open>
  Claim C6 (ftoi). The claim says that \<open>ftoi\<close> with the type parameter pint and one
  input of type f64 is constructed with output type pint. The initialisation function
  asserts \<open>typeParams[0].type === IRType.f64\<close>, and a type object has no property
  \<open>type\<close>: the construction fails for that input, whatever the type of the value is,
  and for every other argument array.
\<close>

theorem FPToIInstr_rejects:
  "FPToIInstr h [TypeArg IRType_pint, ValueArg v] =
     Inl (InvalidArguments (Some ''ftoi'') (AssertionError ''invalid type parameters''))
   \<and> (\<forall>args. \<exists>e. FPToIInstr h args = Inl e)"
proof -
  have "FPToIInstr h (map TypeArg [IRType_pint] @ map ValueArg [v] @ map BlockArg []) =
     Inl (InvalidArguments (Some ''ftoi'') (AssertionError ''invalid type parameters''))"
    unfolding FPToIInstr_def instrMaker_partitioned
    by (simp add: FPToIInstr_initFunc_def andThen_def assert_def IRTypeObj_type_def
        validNumParams_def validNumInputs_def validCount_def element0_def)
  moreover have "\<exists>e. FPToIInstr h args = Inl e" for args
  proof (cases "FPToIInstr h args")
    case (Inl e) then show ?thesis by blast
  next
    case (Inr i)
    from instrMaker_Inr [OF Inr [unfolded FPToIInstr_def]] FPToIInstr_initFunc_fails
    show ?thesis by (metis Inl_Inr_False)
  qed
  ultimately show ?thesis by simp
qed

text \<open>
  Claim C10 (strict comparisons). A \<open>seq\<close> or an \<open>nseq\<close> that is constructed has
  the flag \<open>sideEffects\<close> true and the output type box, and was given exactly two
  inputs (after any type parameters, and no branch target), both of type box. The flag
  is true because the object \<open>new CompInstr()\<close> stands where \<open>untypedInstrMaker\<close>
  takes \<open>sideEffects\<close>: the same maker with \<open>undefined\<close> there gives an
  instruction whose flag is false.
\<close>

theorem strict_comparison_construction:
  "(SeqInstr h args = Inr i \<longrightarrow>
       sideEffects i = True \<and> type i = IRType_box \<and> length (uses i) = 2
       \<and> list_all (\<lambda>v. typeOf (h v) = IRType_box) (uses i)
       \<and> args = map TypeArg (typeParams i) @ map ValueArg (uses i))
   \<and> (NseqInstr h args = Inr j \<longrightarrow>
       sideEffects j = True \<and> type j = IRType_box \<and> length (uses j) = 2
       \<and> list_all (\<lambda>v. typeOf (h v) = IRType_box) (uses j)
       \<and> args = map TypeArg (typeParams j) @ map ValueArg (uses j))
   \<and> (untypedInstrMaker ''seq'' 2 None (JSBoolean False) JSUndefined None h args = Inr k
        \<longrightarrow> sideEffects k = False)"
  using untypedInstrMaker_Inr [of "''seq''" 2 None "JSBoolean False" new_CompInstr_object None h args i]
    untypedInstrMaker_Inr [of "''nseq''" 2 None "JSBoolean False" new_CompInstr_object None h args j]
    untypedInstrMaker_Inr [of "''seq''" 2 None "JSBoolean False" JSUndefined None h args k]
  by (simp add: SeqInstr_def NseqInstr_def new_CompInstr_object_def)

theorem strict_comparison_construction_witness:
  "SeqInstr boxedStore [ValueArg 0, ValueArg 1] =
     Inr (new_IRInstr\<lparr>mnemonic := Some ''seq'', uses := [0, 1], sideEffects := True\<rparr>)
   \<and> NseqInstr boxedStore [ValueArg 0, ValueArg 1] =
     Inr (new_IRInstr\<lparr>mnemonic := Some ''nseq'', uses := [0, 1], sideEffects := True\<rparr>)
   \<and> untypedInstrMaker ''seq'' 2 None (JSBoolean False) JSUndefined None boxedStore
        [ValueArg 0, ValueArg 1] =
     Inr (new_IRInstr\<lparr>mnemonic := Some ''seq'', uses := [0, 1]\<rparr>)
   \<and> sideEffects (new_IRInstr\<lparr>mnemonic := Some ''seq'', uses := [0, 1], sideEffects := True\<rparr>)
       = True
   \<and> type (new_IRInstr\<lparr>mnemonic := Some ''seq'', uses := [0, 1], sideEffects := True\<rparr>)
       = IRType_box
   \<and> sideEffects (new_IRInstr\<lparr>mnemonic := Some ''nseq'', uses := [0, 1], sideEffects := True\<rparr>)
       = True
   \<and> sideEffects (new_IRInstr\<lparr>mnemonic := Some ''seq'', uses := [0, 1]\<rparr>) = False"
  using strict_comparison_construction [of boxedStore "[ValueArg 0, ValueArg 1]"
      "new_IRInstr\<lparr>mnemonic := Some ''seq'', uses := [0, 1], sideEffects := True\<rparr>"
      "new_IRInstr\<lparr>mnemonic := Some ''nseq'', uses := [0, 1], sideEffects := True\<rparr>"
      "new_IRInstr\<lparr>mnemonic := Some ''seq'', uses := [0, 1]\<rparr>"]
    SeqInstr_boxedStore NseqInstr_boxedStore seq_undefined_boxedStore
  by simp

section \<open>Properties of the table of constants\<close>

lemma new_ConstValue_valid:
  "validConstant v t \<Longrightarrow> new_ConstValue v t = Inr \<lparr> type = t, value = v \<rparr>"
  by (auto simp: new_ConstValue_def validConstant_def andThen_def assert_def split: if_splits)

lemma new_ConstValue_Inr:
  "new_ConstValue v t = Inr c \<Longrightarrow> c = \<lparr> type = t, value = v \<rparr> \<and> validConstant v t"
  by (auto simp: new_ConstValue_def validConstant_def andThen_def assert_def split: if_splits)

lemma getConst_found:
  "lookupConst s v (typeOrBox ty) = Some r \<Longrightarrow> getConst v ty s = (Inr r, s)"
  by (auto simp: getConst_def lookupConst_def typeOrBox_def hasItem_def getItem_def Let_def
      split: option.splits)

lemma getConst_Inr_lookup:
  "getConst v ty s = (Inr c, s') \<Longrightarrow> lookupConst s' v (typeOrBox ty) = Some c"
  by (auto simp: getConst_def lookupConst_def typeOrBox_def hasItem_def getItem_def addItem_def
      Let_def split: option.splits if_splits sum.splits)

lemma getConst_keeps:
  "lookupConst s v t = Some r \<Longrightarrow> lookupConst (snd (getConst v' ty s)) v t = Some r"
  by (auto simp: getConst_def lookupConst_def hasItem_def getItem_def addItem_def
      Let_def split: option.splits if_splits sum.splits)

lemma getConst_valid_returns:
  "validConstant v (typeOrBox ty) \<Longrightarrow> \<exists>c. fst (getConst v ty s) = Inr c"
  by (auto simp: getConst_def hasItem_def getItem_def addItem_def Let_def
      new_ConstValue_valid split: option.splits)

lemma getConst_invariant:
  assumes "constInvariant s"
  shows "constInvariant (snd (getConst v ty s))"
  unfolding constInvariant_def
proof (intro allI impI)
  fix v' t r
  assume l: "lookupConst (snd (getConst v ty s)) v' t = Some r"
  from assms have inv: "\<And>v t r. lookupConst s v t = Some r \<Longrightarrow>
      validConstant v t \<and>
      r < length (constObjects s) \<and> constObjects s ! r = \<lparr> type = t, value = v \<rparr>"
    unfolding constInvariant_def by blast
  show "validConstant v' t \<and> r < length (constObjects (snd (getConst v ty s))) \<and>
       constObjects (snd (getConst v ty s)) ! r = \<lparr>type = t, value = v'\<rparr>"
    using l inv [of v' t r] 
    by (auto simp: getConst_def lookupConst_def hasItem_def getItem_def addItem_def
      Let_def nth_append typeOrBox_def dest!: new_ConstValue_Inr
      split: option.splits if_splits sum.splits)
qed

lemma calls_keeps:
  "lookupConst s v t = Some r \<Longrightarrow> lookupConst (getConstCalls calls s) v t = Some r"
proof (induction calls arbitrary: s)
  case Nil then show ?case by simp
next
  case (Cons c calls)
  obtain v' ty where c: "c = (v', ty)" by (cases c)
  show ?case unfolding c using Cons.IH [OF getConst_keeps [OF Cons.prems]] by simp
qed

lemma calls_invariant:
  "constInvariant s \<Longrightarrow> constInvariant (getConstCalls calls s)"
proof (induction calls arbitrary: s)
  case Nil then show ?case by simp
next
  case (Cons c calls)
  obtain v' ty where c: "c = (v', ty)" by (cases c)
  show ?case unfolding c using Cons.IH [OF getConst_invariant [OF Cons.prems]] by simp
qed

lemma initial_invariant: "constInvariant initialConstState"
  by (simp add: constInvariant_def lookupConst_def initialConstState_def)

lemma getConst_first:
  "getConst (JSNumber 0) None initialConstState = (Inr 0, constStateOne)"
  by (simp add: getConst_def initialConstState_def hasItem_def addItem_def getItem_def
      new_ConstValue_def andThen_def assert_def Let_def typeOrBox_def constStateOne_def)

lemma getConst_second:
  "getConst (JSNumber 0) (Some IRType_i32) constStateOne = (Inr 1, constStateTwo)"
  by (simp add: getConst_def hasItem_def addItem_def getItem_def
      new_ConstValue_def andThen_def assert_def Let_def typeOrBox_def constStateOne_def
      constStateTwo_def)

lemma getConst_third:
  "getConst (JSNumber 0) (Some IRType_box) constStateTwo = (Inr 0, constStateTwo)"
  by (simp add: getConst_def hasItem_def addItem_def getItem_def Let_def typeOrBox_def
      constStateTwo_def)

lemma example_states:
  "getConstCalls [] initialConstState = initialConstState"
  "snd (getConst (JSNumber 0) None initialConstState) = constStateOne"
  "getConstCalls [(JSNumber 0, Some IRType_i32)] constStateOne = constStateTwo"
  "getConstCalls [] constStateOne = constStateOne"
  by (simp_all add: getConst_first getConst_second)

text \<open>
  Claim C1 (constant uniquing). Take any state \<open>sa\<close> that calls of \<open>getConst\<close> reach
  from the empty table. A call in it returns a constant exactly when the constructor
  accepts the value at the type (box when left undefined). When it returns a constant,
  that object exists and holds the value and the type; after any further calls, a call
  with the same value and the same type object returns that identical object and leaves
  the table as it is; and any later call that returns a constant returns the same object
  exactly when the two values are equal and the two types are the same type object, so
  the same value at two different types gives two distinct objects.
\<close>

theorem constant_uniquing:
  assumes sa: "sa = getConstCalls earlier initialConstState"
    and s1: "s1 = snd (getConst v1 t1 sa)"
    and sb: "sb = getConstCalls later s1"
  shows "((\<exists>c. fst (getConst v1 t1 sa) = Inr c) = validConstant v1 (typeOrBox t1))
     \<and> (fst (getConst v1 t1 sa) = Inr c1 \<longrightarrow>
           c1 < length (constObjects s1)
           \<and> constObjects s1 ! c1 = \<lparr> type = typeOrBox t1, value = v1 \<rparr>
           \<and> (typeOrBox t2 = typeOrBox t1 \<longrightarrow> getConst v1 t2 sb = (Inr c1, sb))
           \<and> (fst (getConst v2 t2 sb) = Inr c2 \<longrightarrow>
                 (c1 = c2) = (v1 = v2 \<and> typeOrBox t1 = typeOrBox t2)))"
proof -
  have inv0: "constInvariant sa"
    unfolding sa by (rule calls_invariant [OF initial_invariant])
  have inv1: "constInvariant s1" unfolding s1 by (rule getConst_invariant [OF inv0])
  have inv: "constInvariant sb" unfolding sb by (rule calls_invariant [OF inv1])
  have returns: "(\<exists>c. fst (getConst v1 t1 sa) = Inr c) = validConstant v1 (typeOrBox t1)"
  proof
    assume "\<exists>c. fst (getConst v1 t1 sa) = Inr c"
    then obtain c where "getConst v1 t1 sa = (Inr c, s1)"
      unfolding s1 by (metis prod.collapse)
    from getConst_Inr_lookup [OF this] inv1 show "validConstant v1 (typeOrBox t1)"
      unfolding constInvariant_def by blast
  next
    assume "validConstant v1 (typeOrBox t1)"
    then show "\<exists>c. fst (getConst v1 t1 sa) = Inr c" by (rule getConst_valid_returns)
  qed
  have unique: "fst (getConst v1 t1 sa) = Inr c1 \<longrightarrow>
           c1 < length (constObjects s1)
           \<and> constObjects s1 ! c1 = \<lparr> type = typeOrBox t1, value = v1 \<rparr>
           \<and> (typeOrBox t2 = typeOrBox t1 \<longrightarrow> getConst v1 t2 sb = (Inr c1, sb))
           \<and> (fst (getConst v2 t2 sb) = Inr c2 \<longrightarrow>
                 (c1 = c2) = (v1 = v2 \<and> typeOrBox t1 = typeOrBox t2))"
  proof
    assume a: "fst (getConst v1 t1 sa) = Inr c1"
    then have g1: "getConst v1 t1 sa = (Inr c1, s1)"
      unfolding s1 by (metis prod.collapse)
    have l1: "lookupConst s1 v1 (typeOrBox t1) = Some c1"
      by (rule getConst_Inr_lookup [OF g1])
    have l1': "lookupConst sb v1 (typeOrBox t1) = Some c1"
      unfolding sb by (rule calls_keeps [OF l1])
    have obj: "c1 < length (constObjects s1)
           \<and> constObjects s1 ! c1 = \<lparr> type = typeOrBox t1, value = v1 \<rparr>"
      using l1 inv1 unfolding constInvariant_def by blast
    have again: "typeOrBox t2 = typeOrBox t1 \<longrightarrow> getConst v1 t2 sb = (Inr c1, sb)"
      using getConst_found [of sb v1 t2 c1] l1' by simp
    have iff: "fst (getConst v2 t2 sb) = Inr c2 \<longrightarrow>
                 (c1 = c2) = (v1 = v2 \<and> typeOrBox t1 = typeOrBox t2)"
    proof
      assume b: "fst (getConst v2 t2 sb) = Inr c2"
      define s2 where "s2 = snd (getConst v2 t2 sb)"
      have g2: "getConst v2 t2 sb = (Inr c2, s2)"
        using b unfolding s2_def by (metis prod.collapse)
      have inv2: "constInvariant s2" unfolding s2_def by (rule getConst_invariant [OF inv])
      have l1'': "lookupConst s2 v1 (typeOrBox t1) = Some c1"
        unfolding s2_def by (rule getConst_keeps [OF l1'])
      have l2: "lookupConst s2 v2 (typeOrBox t2) = Some c2"
        by (rule getConst_Inr_lookup [OF g2])
      show "(c1 = c2) = (v1 = v2 \<and> typeOrBox t1 = typeOrBox t2)"
      proof
        assume "c1 = c2"
        with l1'' l2 inv2 show "v1 = v2 \<and> typeOrBox t1 = typeOrBox t2"
          unfolding constInvariant_def by (metis ConstValue.ext_inject IRValue.ext_inject)
      next
        assume "v1 = v2 \<and> typeOrBox t1 = typeOrBox t2"
        with l1' have "lookupConst sb v2 (typeOrBox t2) = Some c1" by simp
        from getConst_found [OF this] g2 show "c1 = c2" by simp
      qed
    qed
    from obj again iff show "c1 < length (constObjects s1)
           \<and> constObjects s1 ! c1 = \<lparr> type = typeOrBox t1, value = v1 \<rparr>
           \<and> (typeOrBox t2 = typeOrBox t1 \<longrightarrow> getConst v1 t2 sb = (Inr c1, sb))
           \<and> (fst (getConst v2 t2 sb) = Inr c2 \<longrightarrow>
                 (c1 = c2) = (v1 = v2 \<and> typeOrBox t1 = typeOrBox t2))" by blast
  qed
  from returns unique show ?thesis by (rule conjI)
qed

text \<open>
  The value 0: asked for with the type left undefined, then at i32, then at box. The
  first and the third call return the object 0, the second one the object 1.
\<close>

theorem constant_uniquing_witness:
  "validConstant (JSNumber 0) IRType_box
   \<and> getConst (JSNumber 0) None initialConstState = (Inr 0, constStateOne)
   \<and> constObjects constStateOne ! 0 = \<lparr> type = IRType_box, value = JSNumber 0 \<rparr>
   \<and> getConst (JSNumber 0) (Some IRType_box) constStateTwo = (Inr 0, constStateTwo)
   \<and> getConst (JSNumber 0) (Some IRType_i32) constStateOne = (Inr 1, constStateTwo)
   \<and> ((0::nat) = 0) = (JSNumber 0 = JSNumber 0 \<and> typeOrBox None = typeOrBox (Some IRType_box))
   \<and> ((0::nat) = 1) = (JSNumber 0 = JSNumber 0 \<and> typeOrBox None = typeOrBox (Some IRType_i32))"
  using constant_uniquing [OF refl refl refl, where earlier = "[]" and ?v1.0 = "JSNumber 0"
      and ?t1.0 = None and later = "[(JSNumber 0, Some IRType_i32)]" and ?c1.0 = 0
      and ?t2.0 = "Some IRType_box" and ?v2.0 = "JSNumber 0" and ?c2.0 = 0]
    constant_uniquing [OF refl refl refl, where earlier = "[]" and ?v1.0 = "JSNumber 0"
      and ?t1.0 = None and later = "[]" and ?c1.0 = 0
      and ?t2.0 = "Some IRType_i32" and ?v2.0 = "JSNumber 0" and ?c2.0 = 1]
  by (simp add: example_states getConst_first getConst_second getConst_third typeOrBox_def
      del: One_nat_def)

section \<open>Properties of phi nodes\<close>













section \<open>Properties of the emission driver\<close>

subsection \<open>Emission appends to the assembler\<close>

lemma appendTo_simps [simp]:
  "appendTo asm (Inl e) = Inl e"
  "appendTo asm (Inr code) = Inr (asm @ code)"
  by (simp_all add: appendTo_def)

lemma appendTo_andThen:
  "appendTo asm (andThen r f) = andThen r (\<lambda>x. appendTo asm (f x))"
  by (cases r) (simp_all add: andThen_def)

lemma andThen_simps [simp]:
  "andThen (Inl e) f = Inl e"
  "andThen (Inr x) f = f x"
  by (simp_all add: andThen_def)

lemma andThen_appendTo:
  "andThen (appendTo asm r) f = andThen r (\<lambda>code. f (asm @ code))"
  by (cases r) simp_all

lemma insertMove_frame:
  "insertMove asm m params = appendTo asm (insertMove [] m params)"
  by (simp add: insertMove_def assert_def split: move_value.splits option.splits)

lemma insertMoves_frame:
  "insertMoves asm ms params = appendTo asm (insertMoves [] ms params)"
proof (induction ms arbitrary: asm)
  case Nil
  then show ?case by simp
next
  case (Cons m ms)
  show ?case
  proof (cases "insertMove [] m params")
    case (Inl e)
    then show ?thesis by (simp add: insertMove_frame [of asm])
  next
    case (Inr code)
    have "insertMoves (asm @ code) ms params = appendTo (asm @ code) (insertMoves [] ms params)"
      by (rule Cons.IH)
    moreover have "insertMoves code ms params = appendTo code (insertMoves [] ms params)"
      by (rule Cons.IH)
    ultimately show ?thesis using Inr
      by (cases "insertMoves [] ms params") (simp_all add: insertMove_frame [of asm])
  qed
qed

lemma insertMoves_code:
  "list_all (\<lambda>m. succeeds (insertMove [] m params)) ms
     \<Longrightarrow> insertMoves [] ms params = Inr (concat (map (moveCode params) ms))"
proof (induction ms)
  case Nil
  then show ?case by simp
next
  case (Cons m ms)
  then obtain code where c: "insertMove [] m params = Inr code"
    by (cases "insertMove [] m params") (auto simp: succeeds_def)
  from Cons have "insertMoves [] ms params = Inr (concat (map (moveCode params) ms))" by simp
  moreover have "moveCode params m = code"
    using c by (simp add: moveCode_def emitted_def)
  ultimately show ?case
    using c insertMoves_frame [of code ms params] by simp
qed

lemma insertEdgeTrans_frame:
  "insertEdgeTrans cfg asm p s mm bl el params
     = appendTo asm (insertEdgeTrans cfg [] p s mm bl el params)"
proof -
  have "insertMoves (asm @ [asm_addInstr l]) ms params
          = appendTo asm (insertMoves [asm_addInstr l] ms params)" for l ms
    using insertMoves_frame [of "asm @ [asm_addInstr l]" ms params]
      insertMoves_frame [of "[asm_addInstr l]" ms params]
    by (cases "insertMoves [] ms params") simp_all
  then show ?thesis
    by (simp add: insertEdgeTrans_def appendTo_andThen andThen_appendTo)
qed

lemma insertEdgeTrans_code:
  assumes "el (p, s) = Some (edgeLabel cfg p s)"
    and "mergeMoves allocInfo (p, s) = Some ms"
    and "list_all (\<lambda>m. succeeds (insertMove [] m params)) ms"
    and "bl (blockId (cfg s)) = Some (blockLabel cfg s)"
  shows "insertEdgeTrans cfg [] p s (mergeMoves allocInfo) bl el params
           = Inr (edgeTransStub cfg allocInfo params p s)"
  using assms insertMoves_frame [of "[asm_addInstr (edgeLabel cfg p s)]" ms params]
    insertMoves_code [OF assms(3)]
  by (simp add: insertEdgeTrans_def getItem_def edgeTransStub_def)


lemma genCmp_frame:
  "genCmp h instr ops asm lt lf a b sw = appendTo asm (genCmp h instr ops [] lt lf a b sw)"
  by (simp add: genCmp_def Let_def split: option.splits)

lemma IfInstr_frame:
  "IfInstr_x86_genCode h instr ops d asm genInfo
     = appendTo asm (IfInstr_x86_genCode h instr ops d [] genInfo)"
proof (cases "getEdgeLabel (edgeLabels genInfo) (parentBlock instr) (element0 (targets instr))")
  case (Inl e)
  then show ?thesis by (simp add: IfInstr_x86_genCode_def)
next
  case l1: (Inr l1)
  show ?thesis
  proof (cases "getEdgeLabel (edgeLabels genInfo) (parentBlock instr)
                  (element0 (drop 1 (targets instr)))")
    case (Inl e)
    then show ?thesis using l1 by (simp add: IfInstr_x86_genCode_def)
  next
    case (Inr l2)
    then show ?thesis using l1
      by (simp add: IfInstr_x86_genCode_def genCmp_frame [of _ _ _ asm])
  qed
qed

lemma genCode_frame:
  "genCode h thisType instr ops d asm genInfo
     = appendTo asm (genCode h thisType instr ops d [] genInfo)"
  by (cases "instrClass instr")
    (simp_all add: genCode_def AddInstr_x86_genCode_def SubInstr_x86_genCode_def
      MulInstr_x86_genCode_def ModInstr_x86_genCode_def LsftInstr_x86_genCode_def
      JumpInstr_x86_genCode_def IfInstr_frame [of _ _ _ _ asm] RetInstr_x86_genCode_def
      appendTo_andThen assert_def Let_def
      split: option.splits)

lemma emitInstrs_frame:
  "emitInstrs h thisType allocInfo genInfo params asm instrList
     = appendTo asm (emitInstrs h thisType allocInfo genInfo params [] instrList)"
proof (induction instrList arbitrary: asm)
  case Nil
  then show ?case by simp
next
  case (Cons i rest)
  note IH = Cons.IH
  show ?case
  proof (cases "isPseudoInstr i \<or> instrClass i = OtherInstr_class
                 \<or> instrMap allocInfo (instrId i) = None")
    case True
    then show ?thesis using IH [of asm] by auto
  next
    case False
    then obtain ia where ia: "instrMap allocInfo (instrId i) = Some ia" by auto
    show ?thesis
    proof (cases "insertMoves [] (preMoves ia) params")
      case (Inl e)
      then show ?thesis using False ia
        by (simp add: insertMoves_frame [of asm])
    next
      case (Inr c1)
      show ?thesis
      proof (cases "genCode h thisType i (opnds ia) (dest ia) [] genInfo")
        case (Inl e)
        then show ?thesis using False ia Inr
          by (simp add: insertMoves_frame [of asm] genCode_frame [of _ _ _ _ _ "asm @ c1"]
              genCode_frame [of _ _ _ _ _ c1])
      next
        case c2: (Inr c2)
        have "emitInstrs h thisType allocInfo genInfo params (asm @ c1 @ c2) rest
               = appendTo asm (emitInstrs h thisType allocInfo genInfo params (c1 @ c2) rest)"
          using IH [of "asm @ c1 @ c2"] IH [of "c1 @ c2"]
          by (cases "emitInstrs h thisType allocInfo genInfo params [] rest") simp_all
        then show ?thesis using False ia Inr c2
          by (simp add: insertMoves_frame [of asm] genCode_frame [of _ _ _ _ _ "asm @ c1"]
              genCode_frame [of _ _ _ _ _ c1])
      qed
    qed
  qed
qed

lemma emitPredTrans_frame:
  "emitPredTrans cfg allocInfo bl el params b asm ps
     = appendTo asm (emitPredTrans cfg allocInfo bl el params b [] ps)"
proof (induction ps arbitrary: asm)
  case Nil
  then show ?case by simp
next
  case (Cons p ps)
  show ?case
  proof (cases "length (succs (cfg p)) = 1")
    case True
    then show ?thesis using Cons.IH [of asm] by simp
  next
    case False
    show ?thesis
    proof (cases "insertEdgeTrans cfg [] p b (mergeMoves allocInfo) bl el params")
      case (Inl e)
      then show ?thesis using False by (simp add: insertEdgeTrans_frame [of _ asm])
    next
      case (Inr c)
      have "emitPredTrans cfg allocInfo bl el params b (asm @ c) ps
              = appendTo asm (emitPredTrans cfg allocInfo bl el params b c ps)"
        using Cons.IH [of "asm @ c"] Cons.IH [of c]
        by (cases "emitPredTrans cfg allocInfo bl el params b [] ps") simp_all
      then show ?thesis using False Inr by (simp add: insertEdgeTrans_frame [of _ asm])
    qed
  qed
qed

subsection \<open>The label tables\<close>

lemma edgeLabels_inner:
  "foldl (\<lambda>labels' succ. addItem labels' (p, succ) (edgeLabel cfg p succ)) m ss (q, s)
     = (if q = p \<and> s \<in> set ss then Some (edgeLabel cfg p s) else m (q, s))"
  by (induction ss arbitrary: m) (auto simp: addItem_def)

lemma edgeLabels_outer:
  "foldl (\<lambda>labels pred.
            foldl (\<lambda>labels' succ. addItem labels' (pred, succ) (edgeLabel cfg pred succ))
              labels (succs (cfg pred))) m blockOrder (q, s)
     = (if q \<in> set blockOrder \<and> s \<in> set (succs (cfg q))
        then Some (edgeLabel cfg q s) else m (q, s))"
  by (induction blockOrder arbitrary: m) (auto simp: edgeLabels_inner)

lemma makeEdgeLabels_apply:
  "makeEdgeLabels cfg blockOrder (q, s)
     = (if q \<in> set blockOrder \<and> s \<in> set (succs (cfg q))
        then Some (edgeLabel cfg q s) else None)"
  using edgeLabels_outer [of cfg Map.empty blockOrder q s]
  by (simp add: makeEdgeLabels_def edgeLabel_def)

lemma blockLabels_foldl:
  "foldl (\<lambda>labels pred. labels(blockId (cfg pred) \<mapsto> blockLabel cfg pred)) m blockOrder k
     = (if k \<in> (\<lambda>b. blockId (cfg b)) ` set blockOrder
        then Some (blockLabel cfg (last (filter (\<lambda>b. blockId (cfg b) = k) blockOrder)))
        else m k)"
proof (induction blockOrder rule: rev_induct)
  case Nil
  then show ?case by simp
next
  case (snoc x xs)
  then show ?case by (auto simp: image_iff)
qed

lemma makeBlockLabels_apply:
  assumes "inj_on (\<lambda>b. blockId (cfg b)) (set blockOrder)" and "b \<in> set blockOrder"
  shows "makeBlockLabels cfg blockOrder (blockId (cfg b)) = Some (blockLabel cfg b)"
proof -
  let ?f = "filter (\<lambda>c. blockId (cfg c) = blockId (cfg b)) blockOrder"
  have ne: "?f \<noteq> []" using assms(2) by (auto simp: filter_empty_conv)
  then have "last ?f \<in> set ?f" by (rule last_in_set)
  then have "last ?f \<in> set blockOrder" "blockId (cfg (last ?f)) = blockId (cfg b)" by auto
  with assms have "last ?f = b" by (auto dest: inj_onD)
  then show ?thesis
    using blockLabels_foldl [of cfg Map.empty blockOrder "blockId (cfg b)"] assms(2)
    by (simp add: makeBlockLabels_def blockLabel_def [abs_def])
qed

subsection \<open>The code of a block\<close>

lemma emitPredTrans_code:
  assumes "\<And>p. p \<in> set ps \<Longrightarrow> length (succs (cfg p)) \<noteq> 1 \<Longrightarrow>
             insertEdgeTrans cfg [] p b (mergeMoves allocInfo) bl el params
               = Inr (edgeTransStub cfg allocInfo params p b)"
    and "\<And>p. p \<in> set ps \<Longrightarrow> length (succs (cfg p)) \<noteq> 0"
  shows "emitPredTrans cfg allocInfo bl el params b [] ps
           = Inr (concat (map (\<lambda>p. edgeTransStub cfg allocInfo params p b)
                    (filter (\<lambda>p. length (succs (cfg p)) > 1) ps)))"
  using assms
proof (induction ps)
  case Nil
  then show ?case by simp
next
  case (Cons p ps)
  have IH: "emitPredTrans cfg allocInfo bl el params b [] ps
           = Inr (concat (map (\<lambda>p. edgeTransStub cfg allocInfo params p b)
                    (filter (\<lambda>p. length (succs (cfg p)) > 1) ps)))"
    by (rule Cons.IH) (use Cons.prems in auto)
  have nz: "length (succs (cfg p)) \<noteq> 0" using Cons.prems(2) [of p] by simp
  show ?case
  proof (cases "length (succs (cfg p)) = 1")
    case True
    then show ?thesis using IH by simp
  next
    case False
    then have gt: "length (succs (cfg p)) > 1" using nz by arith
    have "insertEdgeTrans cfg [] p b (mergeMoves allocInfo) bl el params
               = Inr (edgeTransStub cfg allocInfo params p b)"
      using Cons.prems(1) [of p] False by simp
    then show ?thesis
      using False gt IH
        emitPredTrans_frame [of cfg allocInfo bl el params b
          "edgeTransStub cfg allocInfo params p b" ps]
      by simp
  qed
qed

lemma emitBlocks_code:
  assumes "\<And>b. b \<in> set bs \<Longrightarrow>
     emitBlock h thisType cfg allocInfo bl genInfo params [] b = Inr (code b)"
    and frame: "\<And>b asm. emitBlock h thisType cfg allocInfo bl genInfo params asm b
        = appendTo asm (emitBlock h thisType cfg allocInfo bl genInfo params [] b)"
  shows "emitBlocks h thisType cfg allocInfo bl genInfo params asm bs
           = Inr (asm @ concat (map code bs))"
  using assms(1)
proof (induction bs arbitrary: asm)
  case Nil
  then show ?case by simp
next
  case (Cons b bs)
  have "emitBlock h thisType cfg allocInfo bl genInfo params asm b = Inr (asm @ code b)"
    using frame [of asm b] Cons.prems [of b] by simp
  moreover have "emitBlocks h thisType cfg allocInfo bl genInfo params (asm @ code b) bs
           = Inr ((asm @ code b) @ concat (map code bs))"
    by (rule Cons.IH) (use Cons.prems in auto)
  ultimately show ?case by simp
qed

lemma emitBlock_frame:
  "emitBlock h thisType cfg allocInfo bl genInfo params asm b
        = appendTo asm (emitBlock h thisType cfg allocInfo bl genInfo params [] b)"
proof (cases "emitPredTrans cfg allocInfo bl (edgeLabels genInfo) params b [] (preds (cfg b))")
  case (Inl e)
  then show ?thesis
    by (simp add: emitBlock_def emitPredTrans_frame [of _ _ _ _ _ _ asm])
next
  case c1: (Inr c1)
  show ?thesis
  proof (cases "bl (blockId (cfg b))")
    case None
    then show ?thesis using c1
      by (simp add: emitBlock_def emitPredTrans_frame [of _ _ _ _ _ _ asm])
  next
    case (Some l)
    show ?thesis
    proof (cases "emitInstrs h thisType allocInfo genInfo params [] (instrs (cfg b))")
      case (Inl e)
      then show ?thesis using c1 Some
        by (simp add: emitBlock_def emitPredTrans_frame [of _ _ _ _ _ _ asm]
            emitInstrs_frame [of _ _ _ _ _ "asm @ c1 @ [asm_addInstr l]"]
            emitInstrs_frame [of _ _ _ _ _ "c1 @ [asm_addInstr l]"])
    next
      case c3: (Inr c3)
      then show ?thesis using c1 Some
        by (simp add: emitBlock_def emitPredTrans_frame [of _ _ _ _ _ _ asm]
            emitInstrs_frame [of _ _ _ _ _ "asm @ c1 @ [asm_addInstr l]"]
            emitInstrs_frame [of _ _ _ _ _ "c1 @ [asm_addInstr l]"]
            insertEdgeTrans_frame [of _ "asm @ c1 @ asm_addInstr l # c3"]
            insertEdgeTrans_frame [of _ "c1 @ asm_addInstr l # c3"])
         (cases "insertEdgeTrans cfg [] b (succs (cfg b) ! 0) (mergeMoves allocInfo) bl
             (edgeLabels genInfo) params"; simp)
    qed
  qed
qed

lemma succeeds_emitted: "succeeds r \<Longrightarrow> r = Inr (emitted r)"
  by (cases r) (simp_all add: succeeds_def emitted_def)

lemma emitBlock_code:
  assumes wf: "wellFormedInput h thisType cfg cc blockOrder allocInfo be params"
    and b: "b \<in> set blockOrder"
  shows "emitBlock h thisType cfg allocInfo (makeBlockLabels cfg blockOrder)
           (genInfoOf cfg cc blockOrder allocInfo be params) params [] b
         = Inr (blockCode h thisType cfg allocInfo
                  (genInfoOf cfg cc blockOrder allocInfo be params) params b)"
proof -
  let ?bl = "makeBlockLabels cfg blockOrder"
  let ?el = "makeEdgeLabels cfg blockOrder"
  let ?gi = "genInfoOf cfg cc blockOrder allocInfo be params"
  note wf' = wf [unfolded wellFormedInput_def]
  from wf' have inj: "inj_on (\<lambda>b. blockId (cfg b)) (set blockOrder)"
    by (rule conjunct1)
  from wf' have all: "\<forall>b \<in> set blockOrder.
            (\<forall>p \<in> set (preds (cfg b)). p \<in> set blockOrder \<and> b \<in> set (succs (cfg p)))
            \<and> (\<forall>s \<in> set (succs (cfg b)). s \<in> set blockOrder
                  \<and> (\<exists>ms. mergeMoves allocInfo (b, s) = Some ms
                         \<and> list_all (\<lambda>m. succeeds (insertMove [] m params)) ms))
            \<and> succeeds (emitInstrs h thisType allocInfo ?gi params [] (instrs (cfg b)))"
    by (rule conjunct2)
  have predsOK: "p \<in> set blockOrder \<and> c \<in> set (succs (cfg p))"
    if "c \<in> set blockOrder" "p \<in> set (preds (cfg c))" for c p
    using all that by blast
  have succsOK: "s \<in> set blockOrder
           \<and> (\<exists>ms. mergeMoves allocInfo (c, s) = Some ms
                  \<and> list_all (\<lambda>m. succeeds (insertMove [] m params)) ms)"
    if "c \<in> set blockOrder" "s \<in> set (succs (cfg c))" for c s
    using all that by blast
  have body: "succeeds (emitInstrs h thisType allocInfo ?gi params [] (instrs (cfg b)))"
    using all b by blast
  have el: "edgeLabels ?gi = ?el" by (simp add: genInfoOf_def)
  have stub: "insertEdgeTrans cfg [] p s (mergeMoves allocInfo) ?bl ?el params
                = Inr (edgeTransStub cfg allocInfo params p s)"
    if "p \<in> set blockOrder" "s \<in> set (succs (cfg p))" for p s
  proof -
    from succsOK [OF that] obtain ms where
      s: "s \<in> set blockOrder" and ms: "mergeMoves allocInfo (p, s) = Some ms"
      and ok: "list_all (\<lambda>m. succeeds (insertMove [] m params)) ms" by blast
    show ?thesis
      by (rule insertEdgeTrans_code [OF _ ms ok])
        (simp_all add: makeEdgeLabels_apply that makeBlockLabels_apply [OF inj s])
  qed
  have c1: "emitPredTrans cfg allocInfo ?bl ?el params b [] (preds (cfg b))
           = Inr (concat (map (\<lambda>p. edgeTransStub cfg allocInfo params p b)
                    (filter (\<lambda>p. length (succs (cfg p)) > 1) (preds (cfg b)))))"
  proof (rule emitPredTrans_code)
    fix p assume "p \<in> set (preds (cfg b))"
    with predsOK [OF b] have "p \<in> set blockOrder" "b \<in> set (succs (cfg p))" by auto
    then show "insertEdgeTrans cfg [] p b (mergeMoves allocInfo) ?bl ?el params
                = Inr (edgeTransStub cfg allocInfo params p b)" by (rule stub)
  next
    fix p assume "p \<in> set (preds (cfg b))"
    with predsOK [OF b] have "b \<in> set (succs (cfg p))" by auto
    then show "length (succs (cfg p)) \<noteq> 0" by auto
  qed
  have c2: "?bl (blockId (cfg b)) = Some (blockLabel cfg b)"
    by (rule makeBlockLabels_apply [OF inj b])
  have c3: "emitInstrs h thisType allocInfo ?gi params [] (instrs (cfg b))
              = Inr (instrsCode h thisType allocInfo ?gi params (instrs (cfg b)))"
    using succeeds_emitted [OF body] by (simp add: instrsCode_def)
  have c4: "insertEdgeTrans cfg [] b (succs (cfg b) ! 0) (mergeMoves allocInfo) ?bl ?el params
                = Inr (edgeTransStub cfg allocInfo params b (succs (cfg b) ! 0))"
    if "length (succs (cfg b)) = 1"
  proof -
    from that have "succs (cfg b) ! 0 \<in> set (succs (cfg b))" by simp
    with b show ?thesis by (rule stub)
  qed
  show ?thesis
    using c1 c2 c3 c4
    by (simp add: emitBlock_def el blockCode_def
        emitInstrs_frame [of _ _ _ _ _ "_ @ [asm_addInstr _]"]
        insertEdgeTrans_frame [of _ "_ @ asm_addInstr _ # _"])
qed

subsection \<open>Moves\<close>

lemma insertMove_safe:
  "insertMove asm m params = Inr asm' \<Longrightarrow> \<exists>c. asm' = asm @ [c] \<and> \<not> isMemToMemMov c"
  by (auto simp: insertMove_def andThen_def assert_def isMemToMemMov_def
      split: move_value.splits option.splits if_splits)

lemma insertMoves_safe:
  "insertMoves asm ms params = Inr asm'
     \<Longrightarrow> \<exists>code. asm' = asm @ code \<and> list_all (\<lambda>c. \<not> isMemToMemMov c) code"
proof (induction ms arbitrary: asm)
  case Nil
  then show ?case by simp
next
  case (Cons m ms)
  from Cons.prems obtain asm1 where
    a: "insertMove asm m params = Inr asm1" and b: "insertMoves asm1 ms params = Inr asm'"
    by (cases "insertMove asm m params") simp_all
  from insertMove_safe [OF a] obtain c where c: "asm1 = asm @ [c]" "\<not> isMemToMemMov c" by blast
  from Cons.IH [OF b] obtain code where
    code: "asm' = asm1 @ code" "list_all (\<lambda>c. \<not> isMemToMemMov c) code" by blast
  have "asm' = asm @ (c # code)" using c code by simp
  moreover have "list_all (\<lambda>c. \<not> isMemToMemMov c) (c # code)" using c code by simp
  ultimately show ?case by blast
qed

lemma insertMove_regToMem:
  "insertMove [] moveRegToMem exampleParams =
     Inr [asm_mov (Opnd (MemLoc 64 (Reg ''rsp'') 8)) (Opnd (Reg ''rax''))]"
  by (simp add: insertMove_def moveRegToMem_def assert_def)

subsection \<open>The function of three blocks\<close>

lemma exampleCFG_simps:
  "exampleCFG 10 = \<lparr> blockId = 10, blockName = ''A'', preds = [], succs = [20, 30],
                      instrs = [exampleInstr 11 IfInstr_class 10 [20, 30]] \<rparr>"
  "exampleCFG 20 = \<lparr> blockId = 20, blockName = ''B'', preds = [10], succs = [30],
                      instrs = [exampleInstr 21 JumpInstr_class 20 [30]] \<rparr>"
  "exampleCFG 30 = \<lparr> blockId = 30, blockName = ''C'', preds = [10, 20], succs = [],
            instrs = [exampleInstr 31 RetInstr_class 30 []] \<rparr>"
  by (simp_all add: exampleCFG_def)

lemma example_edgeLabels:
  "edgeLabels (genInfoOf exampleCFG cc [10, 20, 30] ai be ps) (10, 20) = Some (Label ''A_B'')"
  "edgeLabels (genInfoOf exampleCFG cc [10, 20, 30] ai be ps) (10, 30) = Some (Label ''A_C'')"
  "edgeLabels (genInfoOf exampleCFG cc [10, 20, 30] ai be ps) (20, 30) = Some (Label ''B_C'')"
  by (simp_all add: genInfoOf_def makeEdgeLabels_apply exampleCFG_simps edgeLabel_def
      getBlockName_def)

lemma example_body0:
  "emitInstrs boxedStore None exampleAllocInfo
     (genInfoOf exampleCFG exampleCallConv [10, 20, 30] exampleAllocInfo exampleBackend exampleParams)
     exampleParams [] (instrs (exampleCFG 10))
   = Inr [asm_cmp (Opnd (Reg ''rax'')) (Opnd (Reg ''rbx'')), asm_jcc ''je'' (Label ''A_B''),
          asm_jmp (Some (Label ''A_C''))]"
  by (simp add: exampleCFG_simps exampleInstr_def isPseudoInstr_def exampleAllocInfo_def
      genCode_def IfInstr_x86_genCode_def getEdgeLabel_def element0_def getItem_def
      example_edgeLabels genCmp_def opndArg_def boxedStore_def Let_def)

lemma example_body1:
  "emitInstrs boxedStore None exampleAllocInfo
     (genInfoOf exampleCFG exampleCallConv [10, 20, 30] exampleAllocInfo exampleBackend exampleParams)
     exampleParams [] (instrs (exampleCFG 20))
   = Inr [asm_jmp (Some (Label ''B_C''))]"
  by (simp add: exampleCFG_simps exampleInstr_def isPseudoInstr_def exampleAllocInfo_def
      genCode_def JumpInstr_x86_genCode_def getEdgeLabel_def element0_def getItem_def
      example_edgeLabels)

lemma example_body2:
  "emitInstrs boxedStore None exampleAllocInfo
     (genInfoOf exampleCFG exampleCallConv [10, 20, 30] exampleAllocInfo exampleBackend exampleParams)
     exampleParams [] (instrs (exampleCFG 30))
   = Inr [asm_ret]"
  by (simp add: exampleCFG_simps exampleInstr_def isPseudoInstr_def exampleAllocInfo_def
      genCode_def RetInstr_x86_genCode_def genInfoOf_def exampleCallConv_def Let_def)

lemma example_moves:
  "insertMove [] moveRegToMem exampleParams =
     Inr [asm_mov (Opnd (MemLoc 64 (Reg ''rsp'') 8)) (Opnd (Reg ''rax''))]"
  "insertMove [] moveConstToReg exampleParams = Inr [asm_mov (Opnd (Reg ''rbx'')) (Num 5)]"
  by (simp_all add: insertMove_def moveRegToMem_def moveConstToReg_def assert_def
      exampleParams_def exampleBackend_def)

lemma example_mergeMoves:
  "mergeMoves exampleAllocInfo (10, 20) = Some [moveRegToMem]"
  "mergeMoves exampleAllocInfo (10, 30) = Some []"
  "mergeMoves exampleAllocInfo (20, 30) = Some [moveConstToReg]"
  by (simp_all add: exampleAllocInfo_def)

lemma example_bodies:
  "succeeds (emitInstrs boxedStore None exampleAllocInfo
     (genInfoOf exampleCFG exampleCallConv [10, 20, 30] exampleAllocInfo exampleBackend exampleParams)
     exampleParams [] (instrs (exampleCFG 10)))"
  "succeeds (emitInstrs boxedStore None exampleAllocInfo
     (genInfoOf exampleCFG exampleCallConv [10, 20, 30] exampleAllocInfo exampleBackend exampleParams)
     exampleParams [] (instrs (exampleCFG 20)))"
  "succeeds (emitInstrs boxedStore None exampleAllocInfo
     (genInfoOf exampleCFG exampleCallConv [10, 20, 30] exampleAllocInfo exampleBackend exampleParams)
     exampleParams [] (instrs (exampleCFG 30)))"
  by (simp_all only: example_body0 example_body1 example_body2 succeeds_def sum.case)

lemma example_blocks:
  "preds (exampleCFG 10) = []" "succs (exampleCFG 10) = [20, 30]"
  "preds (exampleCFG 20) = [10]" "succs (exampleCFG 20) = [30]"
  "preds (exampleCFG 30) = [10, 20]" "succs (exampleCFG 30) = []"
  "blockId (exampleCFG 10) = 10" "blockId (exampleCFG 20) = 20" "blockId (exampleCFG 30) = 30"
  "getBlockName (exampleCFG 10) = ''A''" "getBlockName (exampleCFG 20) = ''B''"
  "getBlockName (exampleCFG 30) = ''C''"
  by (simp_all add: exampleCFG_simps getBlockName_def)

lemma example_moves_ok:
  "succeeds (insertMove [] moveRegToMem exampleParams)"
  "succeeds (insertMove [] moveConstToReg exampleParams)"
  by (simp_all add: example_moves succeeds_def)

lemma example_wellFormed:
  "wellFormedInput boxedStore None exampleCFG exampleCallConv [10, 20, 30] exampleAllocInfo
     exampleBackend exampleParams"
  unfolding wellFormedInput_def
  by (simp add: example_blocks example_bodies example_mergeMoves example_moves_ok inj_on_def)

lemma example_code:
  "prologue exampleAllocInfo exampleCallConv exampleBackend
     @ concat (map (blockCode boxedStore None exampleCFG exampleAllocInfo
                      (genInfoOf exampleCFG exampleCallConv [10, 20, 30] exampleAllocInfo
                         exampleBackend exampleParams) exampleParams) [10, 20, 30])
   = [asm_addInstr (Label ''A''),
      asm_cmp (Opnd (Reg ''rax'')) (Opnd (Reg ''rbx'')), asm_jcc ''je'' (Label ''A_B''),
      asm_jmp (Some (Label ''A_C'')),
      asm_addInstr (Label ''A_B''),
      asm_mov (Opnd (MemLoc 64 (Reg ''rsp'') 8)) (Opnd (Reg ''rax'')),
      asm_jmp (Some (Label ''B'')),
      asm_addInstr (Label ''B''),
      asm_jmp (Some (Label ''B_C'')),
      asm_addInstr (Label ''B_C''),
      asm_mov (Opnd (Reg ''rbx'')) (Num 5),
      asm_jmp (Some (Label ''C'')),
      asm_addInstr (Label ''A_C''),
      asm_jmp (Some (Label ''C'')),
      asm_addInstr (Label ''C''),
      asm_ret]"
proof -
  have p: "prologue exampleAllocInfo exampleCallConv exampleBackend = []"
    by (simp add: prologue_def exampleAllocInfo_def exampleCallConv_def)
  show ?thesis
    by (simp add: p blockCode_def example_blocks edgeTransStub_def example_mergeMoves
        moveCode_def example_moves emitted_def instrsCode_def example_body0 example_body1
        example_body2 blockLabel_def edgeLabel_def)
qed


lemma MulInstr_genCode_reads_instruction:
  "MulInstr_x86_genCode (instr\<lparr>type := IRType_u32\<rparr>) [x86_regs_rax, Reg ''rbx''] d asm genInfo
     = Inr (asm @ [asm_mul (Opnd (Reg ''rbx''))])
   \<and> MulInstr_x86_genCode (instr\<lparr>type := IRType_i32\<rparr>) [x86_regs_rax, Reg ''rbx''] d asm genInfo
     = Inr (asm @ [asm_imul (Opnd x86_regs_rax) (Opnd (Reg ''rbx''))])"
  by (simp add: MulInstr_x86_genCode_def opndArg_def assert_def x86_regs_rax_def)

subsection \<open>Claims about the emitter\<close>

text \<open>
  Claim C7 (edge-transition emission). On a well-formed input the driver returns the
  prologue followed, for every block of the ordering in order, by the code of the block:
  one edge-transition stub for each predecessor that has more than one successor, then
  the label of the block, then the code of its instructions, then, if the block has
  exactly one successor, the stub of that edge; and every stub is the edge label, the
  code of the merge moves of the edge in order, and a jump to the label of the successor
  block (see \<open>blockCode\<close> and \<open>edgeTransStub\<close>).
\<close>

theorem edge_transition_emission:
  assumes "wellFormedInput h thisType cfg cc blockOrder allocInfo be params"
  shows "irToASM h thisType cfg cc blockOrder allocInfo be params =
           Inr (prologue allocInfo cc be
                @ concat (map (blockCode h thisType cfg allocInfo
                                 (genInfoOf cfg cc blockOrder allocInfo be params) params)
                            blockOrder))"
proof -
  have "emitBlocks h thisType cfg allocInfo (makeBlockLabels cfg blockOrder)
          (genInfoOf cfg cc blockOrder allocInfo be params) params
          (prologue allocInfo cc be) blockOrder
        = Inr (prologue allocInfo cc be
                @ concat (map (blockCode h thisType cfg allocInfo
                                 (genInfoOf cfg cc blockOrder allocInfo be params) params)
                            blockOrder))"
    by (rule emitBlocks_code) (rule emitBlock_code [OF assms], assumption, rule emitBlock_frame)
  then show ?thesis
    by (simp add: irToASM_def Let_def genInfoOf_def)
qed

text \<open>
  The function of three blocks is well formed, and the driver emits: block \<open>A\<close>; the
  stub of the edge from \<open>A\<close> to \<open>B\<close> before the label of \<open>B\<close>; the stub of the
  edge from \<open>B\<close> to \<open>C\<close> directly after the jump of \<open>B\<close>; the stub of the critical
  edge from \<open>A\<close> to \<open>C\<close> before the label of \<open>C\<close>.
\<close>

theorem edge_transition_emission_witness:
  "wellFormedInput boxedStore None exampleCFG exampleCallConv [10, 20, 30] exampleAllocInfo
     exampleBackend exampleParams
   \<and> irToASM boxedStore None exampleCFG exampleCallConv [10, 20, 30] exampleAllocInfo
       exampleBackend exampleParams
     = Inr [asm_addInstr (Label ''A''),
      asm_cmp (Opnd (Reg ''rax'')) (Opnd (Reg ''rbx'')), asm_jcc ''je'' (Label ''A_B''),
      asm_jmp (Some (Label ''A_C'')),
      asm_addInstr (Label ''A_B''),
      asm_mov (Opnd (MemLoc 64 (Reg ''rsp'') 8)) (Opnd (Reg ''rax'')),
      asm_jmp (Some (Label ''B'')),
      asm_addInstr (Label ''B''),
      asm_jmp (Some (Label ''B_C'')),
      asm_addInstr (Label ''B_C''),
      asm_mov (Opnd (Reg ''rbx'')) (Num 5),
      asm_jmp (Some (Label ''C'')),
      asm_addInstr (Label ''A_C''),
      asm_jmp (Some (Label ''C'')),
      asm_addInstr (Label ''C''),
      asm_ret]"
  using edge_transition_emission [OF example_wellFormed] example_wellFormed
  by (simp only: example_code simp_thms)

text \<open>
  Claim C8 (move lowering safety). Every move that \<open>insertMove\<close> accepts adds one call
  to the assembler, and that call is not a \<open>mov\<close> between two memory locations; a move
  whose source and destination are both memory locations fails the assertion
  \<open>memory to memory move\<close>; and a list of moves that is accepted (pre-instruction
  moves, merge moves) adds no \<open>mov\<close> between two memory locations.
\<close>

theorem move_lowering_safety:
  "(insertMove asm move params = Inr asm'
      \<longrightarrow> (\<exists>c. asm' = asm @ [c] \<and> \<not> isMemToMemMov c))
   \<and> (src move = X86Operand s \<and> dst move = X86Operand d \<and> isMemLoc s \<and> isMemLoc d
      \<longrightarrow> insertMove asm move params = Inl (AssertionError ''memory to memory move''))
   \<and> (insertMoves asm moves params = Inr asm''
      \<longrightarrow> (\<exists>code. asm'' = asm @ code \<and> list_all (\<lambda>c. \<not> isMemToMemMov c) code))"
proof -
  have "src move = X86Operand s \<and> dst move = X86Operand d \<and> isMemLoc s \<and> isMemLoc d
      \<longrightarrow> insertMove asm move params = Inl (AssertionError ''memory to memory move'')"
    by (simp add: insertMove_def assert_def)
  then show ?thesis using insertMove_safe insertMoves_safe by blast
qed

theorem move_lowering_safety_witness:
  "insertMove [] moveRegToMem exampleParams =
     Inr [asm_mov (Opnd (MemLoc 64 (Reg ''rsp'') 8)) (Opnd (Reg ''rax''))]
   \<and> \<not> isMemToMemMov (asm_mov (Opnd (MemLoc 64 (Reg ''rsp'') 8)) (Opnd (Reg ''rax'')))
   \<and> src moveMemToMem = X86Operand (MemLoc 64 (Reg ''rsp'') 16)
   \<and> dst moveMemToMem = X86Operand (MemLoc 64 (Reg ''rsp'') 8)
   \<and> insertMove [] moveMemToMem exampleParams = Inl (AssertionError ''memory to memory move'')
   \<and> insertMoves [] [moveRegToMem] exampleParams =
       Inr [asm_mov (Opnd (MemLoc 64 (Reg ''rsp'') 8)) (Opnd (Reg ''rax''))]"
  using move_lowering_safety [of "[]" moveRegToMem exampleParams
      "[asm_mov (Opnd (MemLoc 64 (Reg ''rsp'') 8)) (Opnd (Reg ''rax''))]"
      "Reg ''rax''" "MemLoc 64 (Reg ''rsp'') 8" "[moveRegToMem]"
      "[asm_mov (Opnd (MemLoc 64 (Reg ''rsp'') 8)) (Opnd (Reg ''rax''))]"]
    move_lowering_safety [of "[]" moveMemToMem exampleParams "[]"
      "MemLoc 64 (Reg ''rsp'') 16" "MemLoc 64 (Reg ''rsp'') 8" "[]" "[]"]
    insertMove_regToMem
  by (simp add: moveMemToMem_def isMemToMemMov_def)

text \<open>
  Claim C9 (modulo lowering). The register constraints hold: operand 0 is restricted to
  rax and eax and the destination to rdx and edx. The choice between \<open>div\<close> and
  \<open>idiv\<close> does not follow the output type of the instruction: the generator reads
  \<open>this.type\<close>, and \<open>this\<close> is the policy object. With a policy object that has no
  property \<open>type\<close> the call fails with a TypeError and emits nothing, and whatever the
  property holds, an unsigned and a signed \<open>mod\<close> get the same code.
\<close>

theorem ModInstr_genCode_reads_policy_object:
  "genCode h None (instr\<lparr>instrClass := ModInstr_class\<rparr>) ops d asm genInfo
     = Inl (TypeError ''cannot call method isUnsigned of undefined'')
   \<and> genCode h thisType (instr\<lparr>type := IRType_u32, instrClass := ModInstr_class\<rparr>) ops d asm genInfo
     = genCode h thisType (instr\<lparr>type := IRType_i32, instrClass := ModInstr_class\<rparr>) ops d asm
         genInfo
   \<and> ModInstr_x86_opndRegSet instr 0 = Some [x86_regs_rax, x86_regs_eax]
   \<and> ModInstr_x86_destRegSet instr = [x86_regs_rdx, x86_regs_edx]"
  by (simp add: genCode_def ModInstr_x86_genCode_def ModInstr_x86_opndRegSet_def
      ModInstr_x86_destRegSet_def)

end
